theory Spec2Isabelle
  imports Complex_Main "HOL-Library.Sublist"
begin

section \<open>JavaScript values used by the travel assistant\<close>

text \<open>
  JavaScript strings are modelled as \<^typ>\<open>string\<close>: one \<^typ>\<open>char\<close> per UTF-16 code unit,
  which covers the code units below 256 (Latin-1).  The French texts of the program stay
  inside that range; an accented letter is written by its code, \<open>CHR 0xE9\<close> for e-acute.
\<close>

text \<open>\<open>s.includes(t)\<close>: \<open>t\<close> occurs in \<open>s\<close> as a contiguous run of code units.\<close>

fun js_includes :: "string \<Rightarrow> string \<Rightarrow> bool" where
  "js_includes [] t = (t = [])"
| "js_includes (c # cs) t = (prefix t (c # cs) \<or> js_includes cs t)"

text \<open>
  A JavaScript number: a finite value, one of the two infinities, or NaN.  Every comparison
  with NaN is false.
\<close>

datatype number = NaN | NegInf | Fin real | PosInf

fun isNaN :: "number \<Rightarrow> bool" where
  "isNaN NaN = True"
| "isNaN _ = False"

text \<open>\<open>x >= c\<close> and \<open>x <= c\<close> and \<open>x < c\<close> and \<open>x > c\<close> for a finite constant \<open>c\<close>.\<close>

fun num_ge :: "number \<Rightarrow> real \<Rightarrow> bool" where
  "num_ge NaN c = False"
| "num_ge NegInf c = False"
| "num_ge (Fin x) c = (x \<ge> c)"
| "num_ge PosInf c = True"

fun num_le :: "number \<Rightarrow> real \<Rightarrow> bool" where
  "num_le NaN c = False"
| "num_le NegInf c = True"
| "num_le (Fin x) c = (x \<le> c)"
| "num_le PosInf c = False"

fun num_lt :: "number \<Rightarrow> real \<Rightarrow> bool" where
  "num_lt NaN c = False"
| "num_lt NegInf c = True"
| "num_lt (Fin x) c = (x < c)"
| "num_lt PosInf c = False"

fun num_gt :: "number \<Rightarrow> real \<Rightarrow> bool" where
  "num_gt NaN c = False"
| "num_gt NegInf c = False"
| "num_gt (Fin x) c = (x > c)"
| "num_gt PosInf c = True"

text \<open>
  A value produced by \<open>JSON.parse\<close> or \<open>response.json()\<close>.  An object is the list of its
  own properties; \<open>undefined\<close> is the \<open>None\<close> of \<open>json option\<close>.
\<close>

datatype json =
    JNull
  | JBool bool
  | JNum number
  | JStr string
  | JArr "json list"
  | JObj "(string \<times> json) list"

type_synonym jsval = "json option"

text \<open>A thrown value: all the exceptions of this program are \<open>Error\<close> objects with a message.\<close>

datatype exn = Error (message: string)

text \<open>Truthiness, as \<open>!v\<close>, \<open>v || w\<close> and \<open>if (v)\<close> see it.\<close>

fun truthy :: "jsval \<Rightarrow> bool" where
  "truthy None = False"
| "truthy (Some JNull) = False"
| "truthy (Some (JBool b)) = b"
| "truthy (Some (JNum NaN)) = False"
| "truthy (Some (JNum (Fin x))) = (x \<noteq> 0)"
| "truthy (Some (JNum _)) = True"
| "truthy (Some (JStr s)) = (s \<noteq> [])"
| "truthy (Some (JArr _)) = True"
| "truthy (Some (JObj _)) = True"

text \<open>
  Property access \<open>v.k\<close> for the property names the program reads (\<open>reply\<close>, \<open>error\<close>,
  \<open>choices\<close>, \<open>message\<close>, \<open>content\<close>, \<open>location\<close>, \<open>coordinates\<close>), none of which a
  prototype defines: a TypeError on \<open>null\<close> and \<open>undefined\<close>, the own property of an object,
  \<open>undefined\<close> otherwise.
\<close>

fun get_prop :: "jsval \<Rightarrow> string \<Rightarrow> exn + jsval" where
  "get_prop None k = Inl (Error ''Cannot read properties of undefined'')"
| "get_prop (Some JNull) k = Inl (Error ''Cannot read properties of null'')"
| "get_prop (Some (JObj kvs)) k = Inr (map_of kvs k)"
| "get_prop (Some _) k = Inr None"

text \<open>\<open>typeof v === "string"\<close>.\<close>

fun is_string :: "jsval \<Rightarrow> bool" where
  "is_string (Some (JStr s)) = True"
| "is_string _ = False"

text \<open>
  The conversion to a number that \<open>isNaN(v)\<close> and a comparison of \<open>v\<close> with a number apply
  to \<open>v\<close>, for a value of a parsed body.  It is written out for \<open>null\<close>, the booleans and
  the numbers.  A string, an array or an object is converted to a primitive and the string
  is parsed, or a TypeError is thrown for an object that cannot be converted: that is the
  host's work and is a parameter.
\<close>

definition ToNumber :: "(json \<Rightarrow> exn + number) \<Rightarrow> json \<Rightarrow> exn + number" where
  "ToNumber host v =
     (case v of
        JNull \<Rightarrow> Inr (Fin 0)
      | JBool b \<Rightarrow> Inr (Fin (if b then 1 else 0))
      | JNum x \<Rightarrow> Inr x
      | _ \<Rightarrow> host v)"

text \<open>
  The three substrings by which every layer recognises a rate-limit error:
  \<open>message.includes("429") || message.includes("Too Many Requests") ||
  message.includes("rate limit")\<close>, on an \<open>Error\<close>.
\<close>

definition isRateLimitError :: "exn \<Rightarrow> bool" where
  "isRateLimitError e =
     (js_includes (message e) ''429'' \<or> js_includes (message e) ''Too Many Requests'' \<or>
      js_includes (message e) ''rate limit'')"

section \<open>Messages and the history sent upstream (chat route)\<close>

datatype role = User | Assistant | System

record message =
  role :: role
  content :: string

definition systemMessage :: message where
  "systemMessage =
     \<lparr>role = System,
      content = ''Tu es un expert en voyages. R'' @ [CHR 0xE9] @ ''ponds de mani'' @ [CHR 0xE8] @
        ''re concise et utile en fran'' @ [CHR 0xE7] @ ''ais. Limite tes r'' @ [CHR 0xE9] @
        ''ponses '' @ [CHR 0xE0] @ '' 100 mots maximum.''\<rparr>"

text \<open>
  \<open>messages.some((m) => m.role === "system") ? messages : [systemMessage, ...messages]\<close>
\<close>

definition messagesWithSystem :: "message list \<Rightarrow> message list" where
  "messagesWithSystem messages =
     (if list_ex (\<lambda>m. role m = System) messages then messages else systemMessage # messages)"

text \<open>
  \<open>xs.slice(-n)\<close> for \<open>n > 0\<close>: the start index is \<open>max (length - n) 0\<close>, which is what the
  truncating subtraction of \<^typ>\<open>nat\<close> computes.
\<close>

definition slice_last :: "nat \<Rightarrow> 'a list \<Rightarrow> 'a list" where
  "slice_last n xs = drop (length xs - n) xs"

definition recentMessages :: "message list \<Rightarrow> message list" where
  "recentMessages messages = slice_last 5 (messagesWithSystem messages)"

section \<open>Time, the throttle and the retry delays\<close>

text \<open>
  The module-level \<open>lastRequestTime\<close> and the wall clock \<open>Date.now()\<close> (milliseconds).
  Calls to one endpoint class run one after the other; \<open>setTimeout(resolve, d)\<close> resumes
  the caller \<open>d\<close> milliseconds later or later still, never earlier: the excess is the
  \<open>lag\<close> the environment chooses.  That holds for a delay of at most 2147483647 ms; a
  longer one does not fit the timer of the host, which then fires when it chooses (the
  \<open>lag\<close> alone).
\<close>

record tstate =
  clock :: int
  lastRequestTime :: int

text \<open>
  The throttle, written out four times in the sources (\<open>api.ts\<close>, \<open>geocoding.ts\<close> and
  the two routes) with its own constant each time:
  \<^verbatim>\<open>
  const now = Date.now()
  const timeSinceLastRequest = now - lastRequestTime
  if (timeSinceLastRequest < MIN_REQUEST_INTERVAL) {
    await new Promise((resolve) => setTimeout(resolve, MIN_REQUEST_INTERVAL - timeSinceLastRequest))
  }
  lastRequestTime = Date.now()
  \<close>
\<close>

definition acquire :: "int \<Rightarrow> nat \<Rightarrow> tstate \<Rightarrow> tstate" where
  "acquire minInterval lag s =
     (let now = clock s;
          timeSinceLastRequest = now - lastRequestTime s;
          resumed =
            (if timeSinceLastRequest < minInterval
             then now + (minInterval - timeSinceLastRequest) else now) + int lag
      in \<lparr>clock = resumed, lastRequestTime = resumed\<rparr>)"

text \<open>\<open>await new Promise((resolve) => setTimeout(resolve, delay))\<close>, and time that passes.\<close>

definition sleep :: "nat \<Rightarrow> nat \<Rightarrow> tstate \<Rightarrow> tstate" where
  "sleep delay lag s =
     s\<lparr>clock := clock s + (if delay \<le> 2147483647 then int delay else 0) + int lag\<rparr>"

definition elapse :: "nat \<Rightarrow> tstate \<Rightarrow> tstate" where
  "elapse d s = s\<lparr>clock := clock s + int d\<rparr>"

text \<open>
  What \<open>fetch\<close> gives back: it rejects (a network failure), or it resolves to a response.
  \<open>json_body\<close> is the result of \<open>response.json()\<close> (\<open>None\<close> when it rejects), \<open>text_body\<close>
  that of \<open>response.text()\<close>.
\<close>

record response =
  status :: nat
  json_body :: "json option"
  text_body :: "string option"

definition ok :: "response \<Rightarrow> bool" where
  "ok r = (200 \<le> status r \<and> status r \<le> 299)"

datatype fetch_result = FetchThrows exn | Response response

text \<open>
  One attempt as the environment plays it: the lag of the throttle's timer, the duration
  of the fetch, its result, and the lag of the retry timer.
\<close>

record attempt =
  throttle_lag :: nat
  latency :: nat
  outcome :: fetch_result
  backoff_lag :: nat

text \<open>Decimal digits of a natural number, for \<open>`${response.status}`\<close>.\<close>

fun show_nat :: "nat \<Rightarrow> string" where
  "show_nat n =
     (if n < 10 then [''0123456789'' ! n] else show_nat (n div 10) @ [''0123456789'' ! (n mod 10)])"

declare show_nat.simps [simp del]

text \<open>
  \<open>String(v)\<close>, which \<open>new Error(v)\<close> applies to a message that is not a string.  The
  rendering of a number is the host's and is a parameter.  An array is rendered by
  \<open>join(",")\<close>, in which \<open>null\<close> is the empty string.
\<close>

fun join_comma :: "string list \<Rightarrow> string" where
  "join_comma [] = []"
| "join_comma [x] = x"
| "join_comma (x # y # ys) = x @ '','' @ join_comma (y # ys)"

fun js_String :: "(number \<Rightarrow> string) \<Rightarrow> json \<Rightarrow> string" where
  "js_String numstr JNull = ''null''"
| "js_String numstr (JBool b) = (if b then ''true'' else ''false'')"
| "js_String numstr (JNum x) = numstr x"
| "js_String numstr (JStr s) = s"
| "js_String numstr (JArr xs) =
     join_comma (map (\<lambda>x. if x = JNull then [] else js_String numstr x) xs)"
| "js_String numstr (JObj kvs) = ''[object Object]''"

section \<open>The chat client: \<open>sendMessage\<close> (lib/api.ts)\<close>

definition api_MIN_REQUEST_INTERVAL :: int where "api_MIN_REQUEST_INTERVAL = 2000"
definition api_MAX_RETRIES :: nat where "api_MAX_RETRIES = 2"
definition api_INITIAL_RETRY_DELAY :: nat where "api_INITIAL_RETRY_DELAY = 2000"

definition desole :: string where
  "desole = ''Je suis d'' @ [CHR 0xE9] @ ''sol'' @ [CHR 0xE9]"

definition reessayer :: string where
  "reessayer = ''r'' @ [CHR 0xE9] @ ''essayer''"

definition reply_traitement :: string where
  "reply_traitement =
     desole @ '', une erreur s'est produite lors du traitement de la r'' @ [CHR 0xE9] @
     ''ponse. Veuillez '' @ reessayer @ ''.''"

definition reply_surcharge :: string where
  "reply_surcharge =
     desole @ '', mais le service est temporairement surcharg'' @ [CHR 0xE9] @
     ''. Veuillez '' @ reessayer @ '' dans quelques instants.''"

definition reply_erreur :: string where
  "reply_erreur =
     desole @ '', une erreur s'est produite. Veuillez '' @ reessayer @ '' dans quelques instants.''"

definition reply_obj :: "string \<Rightarrow> json" where
  "reply_obj s = JObj [(''reply'', JStr s)]"

text \<open>How one pass through the function body ends.\<close>

datatype 'a step = Retry | Return 'a | Throw exn

text \<open>
  The message of the error thrown for a response that is not ok (lines 38 to 55):
  \<open>errorData.error || errorMessage\<close> when the body parses, else
  \<open>errorText || errorMessage\<close> when it can be read as text, else the status line.
\<close>

definition api_errorMessage :: "(number \<Rightarrow> string) \<Rightarrow> response \<Rightarrow> string" where
  "api_errorMessage numstr r =
     (let errorMessage = ''HTTP error! status: '' @ show_nat (status r);
          from_text =
            (case text_body r of
               Some errorText \<Rightarrow> (if errorText \<noteq> [] then errorText else errorMessage)
             | None \<Rightarrow> errorMessage)
      in case json_body r of
           None \<Rightarrow> from_text
         | Some errorData \<Rightarrow>
             (case get_prop (Some errorData) ''error'' of
                Inl jsonError \<Rightarrow> from_text
              | Inr v \<Rightarrow> (if truthy v then js_String numstr (the v) else errorMessage)))"

text \<open>The \<open>try\<close> block from the fetch on (lines 23 to 77).\<close>

definition sendMessage_try :: "(number \<Rightarrow> string) \<Rightarrow> fetch_result \<Rightarrow> nat \<Rightarrow> json step" where
  "sendMessage_try numstr res retries =
     (case res of
        FetchThrows e \<Rightarrow> Throw e
      | Response r \<Rightarrow>
          if status r = 429 \<and> retries > 0 then Retry
          else if \<not> ok r then Throw (Error (api_errorMessage numstr r))
          else (case json_body r of
                  None \<Rightarrow> Return (reply_obj reply_traitement)
                | Some data \<Rightarrow>
                    if \<not> truthy (Some data) \<or>
                       \<not> (case get_prop (Some data) ''reply'' of Inl _ \<Rightarrow> False | Inr v \<Rightarrow> is_string v)
                    then Return (reply_obj reply_traitement)
                    else Return data))"

text \<open>The \<open>catch\<close> block (lines 78 to 106).\<close>

definition sendMessage_catch :: "exn \<Rightarrow> nat \<Rightarrow> json step" where
  "sendMessage_catch e retries =
     (if isRateLimitError e
      then (if retries > 0 then Retry else Return (reply_obj reply_surcharge))
      else Return (reply_obj reply_erreur))"

definition sendMessage_pass :: "(number \<Rightarrow> string) \<Rightarrow> fetch_result \<Rightarrow> nat \<Rightarrow> json step" where
  "sendMessage_pass numstr res retries =
     (case sendMessage_try numstr res retries of
        Throw e \<Rightarrow> sendMessage_catch e retries
      | st \<Rightarrow> st)"

text \<open>
  \<open>sendMessage(messages, retries, delay)\<close>.  The environment is the script \<open>env\<close> of the
  attempts, \<open>i\<close> the number of the attempt about to be made.  The result comes with the
  state, the requests dispatched (time and body, in order) and the retry delays waited
  (in order).  Both retries are \<open>return sendMessage(messages, retries - 1, delay * 2)\<close>.
\<close>

function sendMessage ::
  "(number \<Rightarrow> string) \<Rightarrow> (nat \<Rightarrow> attempt) \<Rightarrow> nat \<Rightarrow> message list \<Rightarrow> nat \<Rightarrow> nat \<Rightarrow> tstate
   \<Rightarrow> (exn + json) \<times> tstate \<times> (int \<times> message list) list \<times> nat list" where
  "sendMessage numstr env i messages retries delay s =
     (let a = env i;
          s1 = acquire api_MIN_REQUEST_INTERVAL (throttle_lag a) s;
          sent = (clock s1, messages);
          s2 = elapse (latency a) s1
      in case sendMessage_pass numstr (outcome a) retries of
           Return data \<Rightarrow> (Inr data, s2, [sent], [])
         | Throw e \<Rightarrow> (Inl e, s2, [sent], [])
         | Retry \<Rightarrow>
             (case sendMessage numstr env (Suc i) messages (retries - 1) (delay * 2)
                     (sleep delay (backoff_lag a) s2) of
                (r, s', ds, bs) \<Rightarrow> (r, s', sent # ds, delay # bs)))"
  by pat_completeness auto

lemma sendMessage_pass_Retry: "sendMessage_pass numstr res retries = Retry \<Longrightarrow> retries > 0"
  by (auto simp: sendMessage_pass_def sendMessage_try_def sendMessage_catch_def
      split: fetch_result.splits if_splits option.splits step.splits)

termination sendMessage
  by (relation "measure (\<lambda>(numstr, env, i, messages, retries, delay, s). retries)")
    (auto dest: sendMessage_pass_Retry)

declare sendMessage.simps [simp del]

section \<open>The chat route: \<open>fetchWithRetry\<close> and \<open>POST\<close> (the route behind \<open>/api/chat\<close>)\<close>

definition chat_MAX_RETRIES :: nat where "chat_MAX_RETRIES = 3"
definition chat_INITIAL_RETRY_DELAY :: nat where "chat_INITIAL_RETRY_DELAY = 1000"
definition MAX_RETRY_DELAY :: nat where "MAX_RETRY_DELAY = 10000"
definition MIN_OPENAI_REQUEST_INTERVAL :: int where "MIN_OPENAI_REQUEST_INTERVAL = 1000"

text \<open>
  \<open>fetchWithRetry(url, options, retries, delay)\<close>: \<open>options\<close> is the request it sends at
  every attempt.  It returns the last response, or throws the last network error.  The
  retries are \<open>return fetchWithRetry(url, options, retries - 1,
  Math.min(delay * 2, MAX_RETRY_DELAY))\<close>, not awaited inside the \<open>try\<close>, so an error of
  the retry goes to the caller and not through this \<open>catch\<close> again.
\<close>

fun fetchWithRetry ::
  "(nat \<Rightarrow> attempt) \<Rightarrow> nat \<Rightarrow> 'req \<Rightarrow> nat \<Rightarrow> nat \<Rightarrow> tstate
   \<Rightarrow> (exn + response) \<times> tstate \<times> (int \<times> 'req) list \<times> nat list" where
  "fetchWithRetry env i options retries delay s =
     (let a = env i;
          s1 = acquire MIN_OPENAI_REQUEST_INTERVAL (throttle_lag a) s;
          sent = (clock s1, options);
          s2 = elapse (latency a) s1
      in case outcome a of
           Response r \<Rightarrow>
             if status r = 429 \<and> retries > 0
             then (case fetchWithRetry env (Suc i) options (retries - 1) (min (delay * 2) MAX_RETRY_DELAY)
                          (sleep delay (backoff_lag a) s2) of
                     (res, s', ds, bs) \<Rightarrow> (res, s', sent # ds, delay # bs))
             else (Inr r, s2, [sent], [])
         | FetchThrows error \<Rightarrow>
             if retries > 0
             then (case fetchWithRetry env (Suc i) options (retries - 1) (min (delay * 2) MAX_RETRY_DELAY)
                          (sleep delay (backoff_lag a) s2) of
                     (res, s', ds, bs) \<Rightarrow> (res, s', sent # ds, delay # bs))
             else (Inl error, s2, [sent], []))"

declare fetchWithRetry.simps [simp del]

text \<open>
  The server's environment variables (\<open>undefined\<close> is \<open>None\<close>), and \<open>!v\<close> on one: unset
  or empty.
\<close>

record chat_config =
  AZURE_OPENAI_ENDPOINT :: "string option"
  AZURE_OPENAI_KEY :: "string option"
  AZURE_OPENAI_DEPLOYMENT :: "string option"

definition unset :: "string option \<Rightarrow> bool" where
  "unset v = (v = None \<or> v = Some [])"

text \<open>
  The body of the request as \<open>const { messages } = await request.json()\<close> and
  \<open>messages.some(...)\<close> meet it: \<open>request.json()\<close> rejects or yields \<open>null\<close> (the
  destructuring throws); or \<open>messages\<close> is not an array of messages (\<open>messages.some\<close>
  throws); or it is one.
\<close>

datatype chat_request = BodyUnreadable | MessagesUnusable | Messages "message list"

definition reply_trop_de_demandes :: string where
  "reply_trop_de_demandes =
     desole @ '', mais je re'' @ [CHR 0xE7] @ ''ois trop de demandes en ce moment. Veuillez '' @
     reessayer @ '' dans quelques instants.''"

definition reply_difficultes :: string where
  "reply_difficultes =
     desole @ '', mais je rencontre des difficult'' @ [CHR 0xE9] @ ''s '' @ [CHR 0xE0] @
     '' traiter votre demande. Veuillez '' @ reessayer @ '' dans quelques instants.''"

definition reply_interpreter :: string where
  "reply_interpreter =
     desole @ '', j'ai re'' @ [CHR 0xE7] @ ''u une r'' @ [CHR 0xE9] @
     ''ponse que je ne peux pas interpr'' @ [CHR 0xE9] @ ''ter. Veuillez '' @ reessayer @ ''.''"

definition reply_invalide :: string where
  "reply_invalide =
     desole @ '', j'ai re'' @ [CHR 0xE7] @ ''u une r'' @ [CHR 0xE9] @
     ''ponse invalide. Veuillez '' @ reessayer @ ''.''"

definition reply_inattendu :: string where
  "reply_inattendu =
     desole @ '', j'ai re'' @ [CHR 0xE7] @ ''u une r'' @ [CHR 0xE9] @
     ''ponse dans un format inattendu. Veuillez '' @ reessayer @ ''.''"

text \<open>What \<open>NextResponse.json(body, { status })\<close> sends: the status and the body.\<close>

type_synonym http_reply = "nat \<times> json"

text \<open>
  The handling of the upstream response (lines 94 to 173); \<open>Inl\<close> is an exception, which
  the outer \<open>catch\<close> of \<open>POST\<close> receives.  \<open>choices\<close> passes
  \<open>Array.isArray(data.choices)\<close> and \<open>data.choices.length !== 0\<close> when it is a non-empty
  array; \<open>data.choices[0]\<close> is then its first element.
\<close>

definition chat_handle_response :: "response \<Rightarrow> exn + http_reply" where
  "chat_handle_response r =
     (if \<not> ok r
      then (case json_body r of
              Some errorData \<Rightarrow>
                if status r = 429 then Inr (200, reply_obj reply_trop_de_demandes)
                else Inr (200, reply_obj reply_difficultes)
            | None \<Rightarrow> Inr (200, reply_obj reply_difficultes))
      else (case json_body r of
              None \<Rightarrow> Inr (200, reply_obj reply_interpreter)
            | Some data \<Rightarrow>
                if \<not> truthy (Some data) then Inr (200, reply_obj reply_invalide)
                else (case get_prop (Some data) ''choices'' of
                        Inl e \<Rightarrow> Inl e
                      | Inr choices \<Rightarrow>
                          if \<not> truthy choices then Inr (200, reply_obj reply_invalide)
                          else (case choices of
                                  Some (JArr (first # rest)) \<Rightarrow>
                                    (case get_prop (Some first) ''message'' of
                                       Inl e \<Rightarrow> Inl e
                                     | Inr msg \<Rightarrow>
                                         if \<not> truthy msg then Inr (200, reply_obj reply_inattendu)
                                         else (case get_prop msg ''content'' of
                                                 Inl e \<Rightarrow> Inl e
                                               | Inr (Some (JStr c)) \<Rightarrow> Inr (200, reply_obj c)
                                               | Inr _ \<Rightarrow> Inr (200, reply_obj reply_inattendu)))
                                | _ \<Rightarrow> Inr (200, reply_obj reply_invalide)))))"

text \<open>
  \<open>POST(request)\<close>.  Everything is inside one \<open>try\<close>, whose \<open>catch\<close> answers 200 with
  \<open>reply_erreur\<close>; the check of the configuration answers 500.
\<close>

definition POST_chat ::
  "chat_config \<Rightarrow> chat_request \<Rightarrow> (nat \<Rightarrow> attempt) \<Rightarrow> tstate
   \<Rightarrow> http_reply \<times> tstate \<times> (int \<times> message list) list \<times> nat list" where
  "POST_chat cfg request env s =
     (case request of
        BodyUnreadable \<Rightarrow> ((200, reply_obj reply_erreur), s, [], [])
      | _ \<Rightarrow>
          if unset (AZURE_OPENAI_ENDPOINT cfg) \<or> unset (AZURE_OPENAI_KEY cfg) \<or>
             unset (AZURE_OPENAI_DEPLOYMENT cfg)
          then ((500, JObj [(''error'', JStr ''Service configuration error'')]), s, [], [])
          else (case request of
                  Messages messages \<Rightarrow>
                    (case fetchWithRetry env 0 (recentMessages messages) chat_MAX_RETRIES
                            chat_INITIAL_RETRY_DELAY s of
                       (Inl error, s', ds, bs) \<Rightarrow> ((200, reply_obj reply_erreur), s', ds, bs)
                     | (Inr r, s', ds, bs) \<Rightarrow>
                         (case chat_handle_response r of
                            Inl error \<Rightarrow> ((200, reply_obj reply_erreur), s', ds, bs)
                          | Inr answer \<Rightarrow> (answer, s', ds, bs)))
                | _ \<Rightarrow> ((200, reply_obj reply_erreur), s, [], [])))"

section \<open>Locations and the gazetteer (lib/types.ts, lib/locations.ts)\<close>

text \<open>
  \<open>Location\<close>: \<open>coordinates\<close> is a JavaScript array of numbers, \<open>[longitude, latitude]\<close>
  when it is well formed.
\<close>

record location =
  name :: string
  coordinates :: "number list"
  zoom :: number
  description :: "string option"

text \<open>
  A value of type \<open>Location\<close> at run time: an object written in the sources (an entry of
  the gazetteer, the default of the page), or the \<open>location\<close> property of a response body
  as it was received, which nothing has type-checked.
\<close>

datatype located = Literal location | Received json

text \<open>\<open>validateCoordinates\<close>, written in \<open>geocoding.ts\<close> and in the geocode route, on numbers.\<close>

definition validateCoordinates :: "number \<Rightarrow> number \<Rightarrow> bool" where
  "validateCoordinates lon lat =
     (\<not> isNaN lon \<and> \<not> isNaN lat \<and> num_ge lon (-180) \<and> num_le lon 180 \<and>
      num_ge lat (-90) \<and> num_le lat 90)"

text \<open>\<open>locationData\<close>, in the order of \<open>Object.entries\<close> (the order in which it is written).\<close>

definition locationData :: "(string \<times> location) list" where
  "locationData =
   [(''paris'',
    \<lparr>name = ''Paris'', coordinates = [Fin (2.3522), Fin (48.8566)], zoom = Fin 12,
     description = Some (''La capitale de la France, connue pour la Tour Eiffel et le Louvre.'')\<rparr>),
   (''londres'',
    \<lparr>name = ''Londres'', coordinates = [Fin (-0.1278), Fin (51.5074)], zoom = Fin 12,
     description = Some (''La capitale du Royaume-Uni, c'' @ [CHR 0xE9] @ ''l'' @ [CHR 0xE8] @ ''bre pour Big Ben et Buckingham Palace.'')\<rparr>),
   (''new york'',
    \<lparr>name = ''New York'', coordinates = [Fin (-74.006), Fin (40.7128)], zoom = Fin 12,
     description = Some (''La plus grande ville des '' @ [CHR 0xC9] @ ''tats-Unis, connue pour Times Square et la Statue de la Libert'' @ [CHR 0xE9] @ ''.'')\<rparr>),
   (''tokyo'',
    \<lparr>name = ''Tokyo'', coordinates = [Fin (139.6917), Fin (35.6895)], zoom = Fin 12,
     description = Some (''La capitale du Japon, m'' @ [CHR 0xE9] @ ''lange de culture traditionnelle et de technologie moderne.'')\<rparr>),
   (''rome'',
    \<lparr>name = ''Rome'', coordinates = [Fin (12.4964), Fin (41.9028)], zoom = Fin 12,
     description = Some (''La capitale de l'Italie, c'' @ [CHR 0xE9] @ ''l'' @ [CHR 0xE8] @ ''bre pour le Colis'' @ [CHR 0xE9] @ ''e et le Vatican.'')\<rparr>),
   (''tunisie'',
    \<lparr>name = ''Tunisie'', coordinates = [Fin (9.5375), Fin (33.8869)], zoom = Fin 7,
     description = Some (''Pays d'Afrique du Nord connu pour ses plages m'' @ [CHR 0xE9] @ ''diterran'' @ [CHR 0xE9] @ ''ennes et ses sites arch'' @ [CHR 0xE9] @ ''ologiques.'')\<rparr>),
   (''maroc'',
    \<lparr>name = ''Maroc'', coordinates = [Fin (-7.0926), Fin (31.7917)], zoom = Fin 6,
     description = Some (''Pays d'Afrique du Nord connu pour ses m'' @ [CHR 0xE9] @ ''dinas, ses d'' @ [CHR 0xE9] @ ''serts et sa cuisine.'')\<rparr>),
   (''barcelone'',
    \<lparr>name = ''Barcelone'', coordinates = [Fin (2.1734), Fin (41.3851)], zoom = Fin 12,
     description = Some (''Ville espagnole connue pour son architecture unique et ses plages.'')\<rparr>),
   (''berlin'',
    \<lparr>name = ''Berlin'', coordinates = [Fin (13.405), Fin (52.52)], zoom = Fin 12,
     description = Some (''La capitale de l'Allemagne, connue pour son histoire et sa sc'' @ [CHR 0xE8] @ ''ne culturelle.'')\<rparr>),
   (''amsterdam'',
    \<lparr>name = ''Amsterdam'', coordinates = [Fin (4.9041), Fin (52.3676)], zoom = Fin 12,
     description = Some (''La capitale des Pays-Bas, connue pour ses canaux et ses mus'' @ [CHR 0xE9] @ ''es.'')\<rparr>),
   (''venise'',
    \<lparr>name = ''Venise'', coordinates = [Fin (12.3155), Fin (45.4408)], zoom = Fin 13,
     description = Some (''Ville italienne construite sur des '' @ [CHR 0xEE] @ ''les et connue pour ses canaux et son architecture.'')\<rparr>),
   (''bangkok'',
    \<lparr>name = ''Bangkok'', coordinates = [Fin (100.5018), Fin (13.7563)], zoom = Fin 12,
     description = Some (''La capitale de la Tha'' @ [CHR 0xEF] @ ''lande, connue pour ses temples et sa street food.'')\<rparr>),
   (''sydney'',
    \<lparr>name = ''Sydney'', coordinates = [Fin (151.2093), Fin (-33.8688)], zoom = Fin 12,
     description = Some (''La plus grande ville d'Australie, connue pour son op'' @ [CHR 0xE9] @ ''ra et son port.'')\<rparr>),
   (''rio de janeiro'',
    \<lparr>name = ''Rio de Janeiro'', coordinates = [Fin (-43.1729), Fin (-22.9068)], zoom = Fin 12,
     description = Some (''Ville br'' @ [CHR 0xE9] @ ''silienne connue pour ses plages, le Christ R'' @ [CHR 0xE9] @ ''dempteur et le carnaval.'')\<rparr>),
   (''le caire'',
    \<lparr>name = ''Le Caire'', coordinates = [Fin (31.2357), Fin (30.0444)], zoom = Fin 12,
     description = Some (''La capitale de l'' @ [CHR 0x27] @ [CHR 0xC9] @ ''gypte, proche des pyramides de Gizeh.'')\<rparr>),
   (''istanbul'',
    \<lparr>name = ''Istanbul'', coordinates = [Fin (28.9784), Fin (41.0082)], zoom = Fin 12,
     description = Some (''Ville turque '' @ [CHR 0xE0] @ '' cheval sur deux continents, connue pour ses mosqu'' @ [CHR 0xE9] @ ''es et bazars.'')\<rparr>),
   (''dubai'',
    \<lparr>name = ''Duba'' @ [CHR 0xEF], coordinates = [Fin (55.2708), Fin (25.2048)], zoom = Fin 12,
     description = Some (''Ville des '' @ [CHR 0xC9] @ ''mirats arabes unis connue pour ses gratte-ciels et son luxe.'')\<rparr>),
   (''singapour'',
    \<lparr>name = ''Singapour'', coordinates = [Fin (103.8198), Fin (1.3521)], zoom = Fin 12,
     description = Some (''Cit'' @ [CHR 0xE9] @ ''-'' @ [CHR 0xC9] @ ''tat asiatique connue pour sa propret'' @ [CHR 0xE9] @ '', sa modernit'' @ [CHR 0xE9] @ '' et sa cuisine.'')\<rparr>),
   (''hawaii'',
    \<lparr>name = ''Hawaii'', coordinates = [Fin (-157.8583), Fin (21.3069)], zoom = Fin 10,
     description = Some ([CHR 0xC9] @ ''tat insulaire am'' @ [CHR 0xE9] @ ''ricain connu pour ses plages et ses volcans.'')\<rparr>),
   (''maldives'',
    \<lparr>name = ''Maldives'', coordinates = [Fin (73.2207), Fin (3.2028)], zoom = Fin 9,
     description = Some (''Archipel de l'oc'' @ [CHR 0xE9] @ ''an Indien connu pour ses plages et ses r'' @ [CHR 0xE9] @ ''cifs coralliens.'')\<rparr>),
   (''alpes'',
    \<lparr>name = ''Alpes'', coordinates = [Fin (8.2275), Fin (46.8182)], zoom = Fin 8,
     description = Some (''Cha'' @ [CHR 0xEE] @ ''ne de montagnes europ'' @ [CHR 0xE9] @ ''enne populaire pour les sports d'hiver.'')\<rparr>)]"

text \<open>
  \<open>toLowerCase\<close> on Latin-1 code units: the letters A to Z and the accented capitals
  (0xC0 to 0xDE without the multiplication sign 0xD7) move up by 32.
\<close>

definition lower_char :: "char \<Rightarrow> char" where
  "lower_char c =
     (let n = (of_char c :: nat)
      in if (65 \<le> n \<and> n \<le> 90) \<or> (192 \<le> n \<and> n \<le> 222 \<and> n \<noteq> 215) then char_of (n + 32) else c)"

definition toLowerCase :: "string \<Rightarrow> string" where
  "toLowerCase s = map lower_char s"

text \<open>
  \<open>detectPredefinedLocation(text)\<close>: the first entry, in the order of the table, whose key
  occurs in the lower-cased text.
\<close>

definition detectPredefinedLocation :: "string \<Rightarrow> location option" where
  "detectPredefinedLocation text =
     (let lowercaseText = toLowerCase text
      in map_option snd (find (\<lambda>(key, location). js_includes lowercaseText key) locationData))"

section \<open>Candidate phrases: \<open>extractLocationNames\<close> (lib/geocoding.ts)\<close>

text \<open>The white space of \<open>\s\<close> and of \<open>trim\<close> among the Latin-1 code units.\<close>

definition is_space :: "char \<Rightarrow> bool" where
  "is_space c = ((of_char c :: nat) \<in> {9, 10, 11, 12, 13, 32, 160})"

text \<open>
  \<open>text.split(/\s+/)\<close>: the pieces between the maximal runs of white space, an empty
  piece before a leading run and after a trailing one.  \<open>cur\<close> is the piece being read,
  \<open>in_ws\<close> says that the previous code unit was white space.
\<close>

fun split_ws :: "string \<Rightarrow> string \<Rightarrow> bool \<Rightarrow> string list" where
  "split_ws [] cur in_ws = [cur]"
| "split_ws (c # cs) cur in_ws =
     (if is_space c then (if in_ws then split_ws cs cur True else cur # split_ws cs [] True)
      else split_ws cs (cur @ [c]) False)"

definition trim :: "string \<Rightarrow> string" where
  "trim s = rev (dropWhile is_space (rev (dropWhile is_space s)))"

text \<open>
  \<open>c === c.toUpperCase()\<close> for a Latin-1 code unit: false exactly for the lower-case
  letters (a to z, the micro sign, and 0xDF to 0xFF without the division sign 0xF7), whose
  upper case is another code unit or two.
\<close>

definition is_own_upper :: "char \<Rightarrow> bool" where
  "is_own_upper c =
     (let n = (of_char c :: nat)
      in \<not> ((97 \<le> n \<and> n \<le> 122) \<or> n = 181 \<or> (223 \<le> n \<and> n \<le> 255 \<and> n \<noteq> 247)))"

definition endsWith_dot :: "string \<Rightarrow> bool" where
  "endsWith_dot w = (w \<noteq> [] \<and> last w = CHR ''.'')"

fun join_space :: "string list \<Rightarrow> string" where
  "join_space [] = []"
| "join_space [x] = x"
| "join_space (x # y # ys) = x @ '' '' @ join_space (y # ys)"

text \<open>
  The loop of \<open>extractLocationNames\<close> from index \<open>i\<close> on: \<open>prev\<close> is \<open>words[i - 1]\<close>,
  \<open>potentialLocations\<close> and \<open>currentPhrase\<close> are the two arrays it fills.
\<close>

fun extract_loop :: "string list \<Rightarrow> nat \<Rightarrow> string \<Rightarrow> string list \<Rightarrow> string list \<Rightarrow> string list" where
  "extract_loop [] i prev potentialLocations currentPhrase =
     (if currentPhrase \<noteq> [] then potentialLocations @ [join_space currentPhrase]
      else potentialLocations)"
| "extract_loop (w # ws) i prev potentialLocations currentPhrase =
     (case trim w of
        [] \<Rightarrow> extract_loop ws (Suc i) w potentialLocations currentPhrase
      | c # rest \<Rightarrow>
          if i = 0 \<and> is_own_upper c
          then extract_loop ws (Suc i) w potentialLocations currentPhrase
          else if is_own_upper c \<and> (i = 0 \<or> \<not> endsWith_dot prev)
          then extract_loop ws (Suc i) w potentialLocations (currentPhrase @ [c # rest])
          else if currentPhrase \<noteq> []
          then extract_loop ws (Suc i) w (potentialLocations @ [join_space currentPhrase]) []
          else extract_loop ws (Suc i) w potentialLocations currentPhrase)"

definition extractLocationNames :: "string \<Rightarrow> string list" where
  "extractLocationNames text = extract_loop (split_ws text [] False) 0 [] [] []"

section \<open>The geocoding client: \<open>geocodeLocation\<close> (lib/geocoding.ts)\<close>

definition geo_MIN_REQUEST_INTERVAL :: int where "geo_MIN_REQUEST_INTERVAL = 2000"
definition geo_MAX_RETRIES :: nat where "geo_MAX_RETRIES = 2"
definition geo_INITIAL_RETRY_DELAY :: nat where "geo_INITIAL_RETRY_DELAY = 2000"

text \<open>
  A response of \<open>/api/geocode\<close>.  \<open>g_text\<close> is \<open>response.text()\<close> and \<open>g_json\<close> is
  \<open>response.json()\<close>, which is also what \<open>JSON.parse(text)\<close> makes of the body: any JSON
  value; \<open>Inl\<close> is the error each of them rejects with.  \<open>g_error_detail\<close> is what
  \<open>errorData.error || JSON.stringify(errorData)\<close> renders to in the message of an error
  response, \<open>None\<close> when \<open>response.json()\<close> rejects or yields \<open>null\<close>.
\<close>

record geo_response =
  g_status :: nat
  g_content_type :: string
  g_text :: "exn + string"
  g_json :: "exn + json"
  g_error_detail :: "string option"

definition g_ok :: "geo_response \<Rightarrow> bool" where
  "g_ok r = (200 \<le> g_status r \<and> g_status r \<le> 299)"

datatype geo_fetch_result = GeoFetchThrows exn | GeoResponse geo_response

record geo_attempt =
  g_throttle_lag :: nat
  g_latency :: nat
  g_outcome :: geo_fetch_result
  g_backoff_lag :: nat

definition too_many_requests :: exn where
  "too_many_requests = Error ''Too Many Requests: Service temporarily unavailable''"

text \<open>The message of the error for a response that is not ok (lines 64 to 86).\<close>

definition geo_errorMessage :: "geo_response \<Rightarrow> string" where
  "geo_errorMessage r =
     (let errorMessage = ''Geocoding API error: '' @ show_nat (g_status r)
      in if js_includes (g_content_type r) ''text/''
         then (case g_text r of
                 Inr errorText \<Rightarrow> errorMessage @ '' - '' @ errorText
               | Inl textError \<Rightarrow> errorMessage)
         else (case g_error_detail r of
                 Some detail \<Rightarrow> errorMessage @ '' - '' @ detail
               | None \<Rightarrow> errorMessage))"

text \<open>
  Reading the body of an ok response (lines 98 to 151).  Without a JSON content type the
  text is read and parsed by hand, and every failure but the rate-limit one becomes
  \<open>Failed to read response\<close>.  With one, a failure of \<open>response.json()\<close> ends in
  \<open>throw jsonError\<close> whatever the inner \<open>try\<close> finds.
\<close>

definition geo_read_body :: "geo_response \<Rightarrow> exn + json" where
  "geo_read_body r =
     (if \<not> js_includes (g_content_type r) ''application/json''
      then (case (case g_text r of
                    Inl e \<Rightarrow> Inl e
                  | Inr text \<Rightarrow>
                      if js_includes text ''Too Many Requests'' \<or> js_includes text ''429''
                      then Inl too_many_requests
                      else (case g_json r of
                              Inr responseData \<Rightarrow> Inr responseData
                            | Inl jsonError \<Rightarrow> Inl (Error ''Failed to parse response: Invalid format''))) of
              Inr responseData \<Rightarrow> Inr responseData
            | Inl textError \<Rightarrow>
                if js_includes (message textError) ''Too Many Requests'' then Inl textError
                else Inl (Error ''Failed to read response''))
      else (case g_json r of
              Inr responseData \<Rightarrow> Inr responseData
            | Inl jsonError \<Rightarrow> Inl jsonError))"

text \<open>
  \<open>validateCoordinates(lon, lat)\<close> as \<open>geocoding.ts\<close> calls it at line 158, on two entries
  of a parsed body: nothing has checked that they are numbers, and \<open>isNaN\<close> and the
  comparisons convert them.  \<open>isNaN(lon)\<close> converts \<open>lon\<close> first, and \<open>lat\<close> is converted
  only when \<open>lon\<close> is not NaN; \<open>Inl\<close> is the TypeError of a conversion.
\<close>

definition validateCoordinates_received :: "(json \<Rightarrow> exn + number) \<Rightarrow> json \<Rightarrow> json \<Rightarrow> exn + bool" where
  "validateCoordinates_received host lon lat =
     (case ToNumber host lon of
        Inl e \<Rightarrow> Inl e
      | Inr x \<Rightarrow>
          if isNaN x then Inr False
          else (case ToNumber host lat of
                  Inl e \<Rightarrow> Inl e
                | Inr y \<Rightarrow> Inr (validateCoordinates x y)))"

text \<open>
  The validation of the location data (lines 153 to 171): \<open>responseData\<close> and its
  \<open>location\<close> are truthy, \<open>location.coordinates\<close> is an array of length two and
  \<open>validateCoordinates\<close> accepts its entries; then \<open>responseData.location\<close> is returned as
  it is.
\<close>

definition geo_validate :: "(json \<Rightarrow> exn + number) \<Rightarrow> json \<Rightarrow> exn + located option" where
  "geo_validate host responseData =
     (if \<not> truthy (Some responseData) then Inr None
      else (case get_prop (Some responseData) ''location'' of
              Inl e \<Rightarrow> Inl e
            | Inr None \<Rightarrow> Inr None
            | Inr (Some received) \<Rightarrow>
                if \<not> truthy (Some received) then Inr None
                else (case get_prop (Some received) ''coordinates'' of
                        Inl e \<Rightarrow> Inl e
                      | Inr (Some (JArr [lon, lat])) \<Rightarrow>
                          (case validateCoordinates_received host lon lat of
                             Inl e \<Rightarrow> Inl e
                           | Inr valid \<Rightarrow> if \<not> valid then Inr None else Inr (Some (Received received)))
                      | Inr other \<Rightarrow> Inr None)))"

text \<open>The \<open>try\<close> block from the fetch on (lines 41 to 171).\<close>

definition geocodeLocation_try ::
  "(json \<Rightarrow> exn + number) \<Rightarrow> geo_fetch_result \<Rightarrow> nat \<Rightarrow> located option step" where
  "geocodeLocation_try host res retries =
     (case res of
        GeoFetchThrows e \<Rightarrow> Throw e
      | GeoResponse r \<Rightarrow>
          if g_status r = 429
          then (if retries > 0 then Retry else Throw too_many_requests)
          else if \<not> g_ok r
          then (if retries > 0 \<and> g_status r \<ge> 500 then Retry
                else Throw (Error (geo_errorMessage r)))
          else (case geo_read_body r of
                  Inl e \<Rightarrow> Throw e
                | Inr responseData \<Rightarrow>
                    (case geo_validate host responseData of
                       Inl e \<Rightarrow> Throw e
                     | Inr location \<Rightarrow> Return location)))"

text \<open>The \<open>catch\<close> block (lines 172 to 193).\<close>

definition geocodeLocation_catch :: "exn \<Rightarrow> nat \<Rightarrow> located option step" where
  "geocodeLocation_catch e retries =
     (if isRateLimitError e then Throw e
      else if retries > 0 then Retry
      else Return None)"

definition geocodeLocation_pass ::
  "(json \<Rightarrow> exn + number) \<Rightarrow> geo_fetch_result \<Rightarrow> nat \<Rightarrow> located option step" where
  "geocodeLocation_pass host res retries =
     (case geocodeLocation_try host res retries of
        Throw e \<Rightarrow> geocodeLocation_catch e retries
      | st \<Rightarrow> st)"

text \<open>
  \<open>geocodeLocation(locationName, retries, delay)\<close>, with the host's conversion to a number
  and the script of its attempts.  A name of the gazetteer is answered before the throttle
  and without a request.  All three retries are
  \<open>return geocodeLocation(locationName, retries - 1, delay * 2)\<close>.
\<close>

function geocodeLocation ::
  "(json \<Rightarrow> exn + number) \<Rightarrow> (nat \<Rightarrow> geo_attempt) \<Rightarrow> nat \<Rightarrow> string \<Rightarrow> nat \<Rightarrow> nat \<Rightarrow> tstate
   \<Rightarrow> (exn + located option) \<times> tstate \<times> (int \<times> string) list \<times> nat list" where
  "geocodeLocation host env i locationName retries delay s =
     (case detectPredefinedLocation locationName of
        Some predefinedLocation \<Rightarrow> (Inr (Some (Literal predefinedLocation)), s, [], [])
      | None \<Rightarrow>
          (let a = env i;
               s1 = acquire geo_MIN_REQUEST_INTERVAL (g_throttle_lag a) s;
               sent = (clock s1, locationName);
               s2 = elapse (g_latency a) s1
           in case geocodeLocation_pass host (g_outcome a) retries of
                Return location \<Rightarrow> (Inr location, s2, [sent], [])
              | Throw e \<Rightarrow> (Inl e, s2, [sent], [])
              | Retry \<Rightarrow>
                  (case geocodeLocation host env (Suc i) locationName (retries - 1) (delay * 2)
                          (sleep delay (g_backoff_lag a) s2) of
                     (r, s', ds, bs) \<Rightarrow> (r, s', sent # ds, delay # bs))))"
  by pat_completeness auto

lemma geocodeLocation_pass_Retry: "geocodeLocation_pass host res retries = Retry \<Longrightarrow> retries > 0"
  by (auto simp: geocodeLocation_pass_def geocodeLocation_try_def geocodeLocation_catch_def
      split: geo_fetch_result.splits if_splits sum.splits step.splits)

termination geocodeLocation
  by (relation "measure (\<lambda>(host, env, i, locationName, retries, delay, s). retries)")
    (auto dest: geocodeLocation_pass_Retry)

declare geocodeLocation.simps [simp del]

section \<open>The resolution pipeline: \<open>detectAndGeocodeLocation\<close> (lib/geocoding.ts)\<close>

text \<open>
  The pipeline is written over the geocoder it awaits: \<open>geocode name\<close> stands for
  \<open>geocodeLocation(name)\<close> and acts on a state \<open>'s\<close> (the clock, the throttle, the
  network).  It returns, with the result and the state, the log of the geocoder calls it
  made: the name asked and what the call gave.
\<close>

type_synonym 's geocoder = "string \<Rightarrow> 's \<Rightarrow> (exn + located option) \<times> 's"

type_synonym geocode_call = "string \<times> (exn + located option)"

text \<open>
  The \<open>for\<close> loop over the candidates (lines 245 to 264).  \<open>Some r\<close>: the function leaves
  the loop with \<open>r\<close> (a location returned, or a rate-limit error thrown on).  \<open>None\<close>: the
  loop ran to its end.
\<close>

fun geocode_candidates ::
  "'s geocoder \<Rightarrow> string list \<Rightarrow> 's \<Rightarrow> (exn + located option) option \<times> 's \<times> geocode_call list" where
  "geocode_candidates geocode [] s = (None, s, [])"
| "geocode_candidates geocode (locationName # rest) s =
     (case geocode locationName s of
        (Inr (Some location), s') \<Rightarrow> (Some (Inr (Some location)), s', [(locationName, Inr (Some location))])
      | (Inr None, s') \<Rightarrow>
          (case geocode_candidates geocode rest s' of
             (r, s'', calls) \<Rightarrow> (r, s'', (locationName, Inr None) # calls))
      | (Inl error, s') \<Rightarrow>
          if isRateLimitError error then (Some (Inl error), s', [(locationName, Inl error)])
          else (case geocode_candidates geocode rest s' of
                  (r, s'', calls) \<Rightarrow> (r, s'', (locationName, Inl error) # calls)))"

text \<open>The last attempt, on the entire text (lines 268 to 284).\<close>

definition geocode_whole_text :: "'s geocoder \<Rightarrow> string \<Rightarrow> 's \<Rightarrow> (exn + located option) \<times> 's \<times> geocode_call list" where
  "geocode_whole_text geocode text s =
     (case geocode text s of
        (Inr location, s') \<Rightarrow> (Inr location, s', [(text, Inr location)])
      | (Inl error, s') \<Rightarrow>
          (if isRateLimitError error then Inl error else Inr None, s', [(text, Inl error)]))"

text \<open>The outer \<open>catch\<close> (lines 285 to 298).\<close>

definition detect_catch :: "exn + located option \<Rightarrow> exn + located option" where
  "detect_catch r =
     (case r of
        Inl error \<Rightarrow> if isRateLimitError error then Inl error else Inr None
      | Inr location \<Rightarrow> Inr location)"

definition detectAndGeocodeLocation ::
  "'s geocoder \<Rightarrow> string \<Rightarrow> 's \<Rightarrow> (exn + located option) \<times> 's \<times> geocode_call list" where
  "detectAndGeocodeLocation geocode text s =
     (case detectPredefinedLocation text of
        Some predefinedLocation \<Rightarrow> (Inr (Some (Literal predefinedLocation)), s, [])
      | None \<Rightarrow>
          (case geocode_candidates geocode (extractLocationNames text) s of
             (Some r, s', calls) \<Rightarrow> (detect_catch r, s', calls)
           | (None, s', calls) \<Rightarrow>
               (case geocode_whole_text geocode text s' of
                  (r, s'', last_call) \<Rightarrow> (detect_catch r, s'', calls @ last_call))))"

text \<open>
  The geocoder of this module: \<open>geocodeLocation(name)\<close> with its default \<open>retries\<close> and
  \<open>delay\<close>.  Its state is the throttle's, the number of the call (which selects the
  script of the call's attempts) and the requests dispatched so far.
\<close>

type_synonym client_state = "tstate \<times> nat \<times> (int \<times> string) list"

definition client_geocode ::
  "(json \<Rightarrow> exn + number) \<Rightarrow> (nat \<Rightarrow> nat \<Rightarrow> geo_attempt) \<Rightarrow> client_state geocoder" where
  "client_geocode host envs locationName st =
     (case st of
        (s, j, sent) \<Rightarrow>
          (case geocodeLocation host (envs j) 0 locationName geo_MAX_RETRIES geo_INITIAL_RETRY_DELAY s of
             (r, s', ds, bs) \<Rightarrow> (r, (s', Suc j, sent @ ds))))"

section \<open>The geocode route: \<open>POST\<close> (app/api/geocode/route.ts)\<close>

definition route_MIN_REQUEST_INTERVAL :: nat where "route_MIN_REQUEST_INTERVAL = 1000"
definition route_MAX_RETRIES :: nat where "route_MAX_RETRIES = 2"

text \<open>
  A result of the upstream geocoder.  \<open>position\<close>: absent (\<open>!result.position\<close>), or its
  \<open>lon\<close> and \<open>lat\<close>, each \<open>None\<close> when \<open>typeof\<close> is not \<open>"number"\<close>.  A string property is
  falsy when it is absent or empty.
\<close>

datatype az_position = NoPosition | Position "number option" "number option"

record az_address =
  freeformAddress :: "string option"
  country :: "string option"

record az_result =
  position :: az_position
  entityType :: "string option"
  address :: "az_address option"

text \<open>
  The parsed body of an ok upstream response: \<open>null\<close>, on which \<open>data.results\<close> throws; or
  its \<open>results\<close>, the empty list when \<open>data.results\<close> is falsy or empty.
\<close>

datatype az_data = AzNull | AzResults "az_result list"

text \<open>
  An upstream response.  \<open>a_error_json\<close> is \<open>JSON.stringify(await response.json())\<close> and
  \<open>a_error_text\<close> is \<open>await response.text()\<close>, \<open>None\<close> when they throw; \<open>a_data\<close> is
  \<open>response.json()\<close> of an ok response.
\<close>

record az_response =
  a_status :: nat
  a_content_type :: string
  a_error_json :: "string option"
  a_error_text :: "string option"
  a_data :: "az_data option"

definition a_ok :: "az_response \<Rightarrow> bool" where
  "a_ok r = (200 \<le> a_status r \<and> a_status r \<le> 299)"

datatype az_fetch_result = AzFetchThrows exn | AzResponse az_response

record az_attempt =
  a_latency :: nat
  a_outcome :: az_fetch_result
  a_backoff_lag :: nat

text \<open>The error thrown for an upstream response that is not ok (lines 72 to 103).\<close>

definition az_error :: "az_response \<Rightarrow> exn" where
  "az_error r =
     (let errorDetails =
            (if js_includes (a_content_type r) ''application/json''
             then (case a_error_json r of Some d \<Rightarrow> d | None \<Rightarrow> [])
             else (case a_error_text r of Some t \<Rightarrow> t | None \<Rightarrow> []))
      in if a_status r = 429 then Error ''Too Many Requests''
         else Error (''API error: '' @ show_nat (a_status r) @
                (if errorDetails \<noteq> [] then '' - '' @ errorDetails else [])))"

text \<open>
  The \<open>try\<close> block of \<open>makeRequestWithRetry\<close> (lines 50 to 122).  The body of an ok
  response is parsed and its \<open>data.results?.length\<close> is logged inside one inner \<open>try\<close>:
  when \<open>response.json()\<close> rejects, and when the body is \<open>null\<close> (a TypeError on
  \<open>data.results\<close>), the inner \<open>catch\<close> throws \<open>Failed to parse response as JSON\<close>.
\<close>

definition makeRequest_try :: "az_fetch_result \<Rightarrow> nat \<Rightarrow> az_data step" where
  "makeRequest_try res retries =
     (case res of
        AzFetchThrows e \<Rightarrow> Throw e
      | AzResponse r \<Rightarrow>
          if a_status r = 429 \<and> retries > 0 then Retry
          else if \<not> a_ok r then Throw (az_error r)
          else (case a_data r of
                  Some AzNull \<Rightarrow> Throw (Error ''Failed to parse response as JSON'')
                | Some data \<Rightarrow> Return data
                | None \<Rightarrow> Throw (Error ''Failed to parse response as JSON'')))"

definition makeRequest_catch :: "exn \<Rightarrow> nat \<Rightarrow> az_data step" where
  "makeRequest_catch error retries =
     (if retries > 0 \<and> isRateLimitError error then Retry else Throw error)"

definition makeRequest_pass :: "az_fetch_result \<Rightarrow> nat \<Rightarrow> az_data step" where
  "makeRequest_pass res retries =
     (case makeRequest_try res retries of
        Throw e \<Rightarrow> makeRequest_catch e retries
      | st \<Rightarrow> st)"

text \<open>
  \<open>makeRequestWithRetry(retries)\<close> (lines 49 to 138).  It fetches at once, outside the
  throttle of the route, and before either retry waits \<open>MIN_REQUEST_INTERVAL * 2\<close>.
\<close>

function makeRequestWithRetry ::
  "(nat \<Rightarrow> az_attempt) \<Rightarrow> nat \<Rightarrow> string \<Rightarrow> nat \<Rightarrow> tstate
   \<Rightarrow> (exn + az_data) \<times> tstate \<times> (int \<times> string) list \<times> nat list" where
  "makeRequestWithRetry env i query retries s =
     (let a = env i;
          sent = (clock s, query);
          s2 = elapse (a_latency a) s
      in case makeRequest_pass (a_outcome a) retries of
           Return data \<Rightarrow> (Inr data, s2, [sent], [])
         | Throw e \<Rightarrow> (Inl e, s2, [sent], [])
         | Retry \<Rightarrow>
             (case makeRequestWithRetry env (Suc i) query (retries - 1)
                     (sleep (route_MIN_REQUEST_INTERVAL * 2) (a_backoff_lag a) s2) of
                (r, s', ds, bs) \<Rightarrow> (r, s', sent # ds, (route_MIN_REQUEST_INTERVAL * 2) # bs)))"
  by pat_completeness auto

lemma makeRequest_pass_Retry: "makeRequest_pass res retries = Retry \<Longrightarrow> retries > 0"
  by (auto simp: makeRequest_pass_def makeRequest_try_def makeRequest_catch_def
      split: az_fetch_result.splits if_splits option.splits step.splits az_data.splits)

termination makeRequestWithRetry
  by (relation "measure (\<lambda>(env, i, query, retries, s). retries)")
    (auto dest: makeRequest_pass_Retry)

declare makeRequestWithRetry.simps [simp del]

text \<open>What the route answers: the status, and a location, \<open>location: null\<close>, or an error.\<close>

datatype geo_route_body = BodyLocation location | BodyNoLocation | BodyError string

type_synonym geo_route_reply = "nat \<times> geo_route_body"

text \<open>The zoom level for the entity type (lines 183 to 200).\<close>

definition zoom_for :: "string option \<Rightarrow> number" where
  "zoom_for t =
     (if t = Some ''Country'' then Fin 5
      else if t = Some ''CountrySubdivision'' then Fin 7
      else if t = Some ''Municipality'' then Fin 10
      else if t = Some ''PostalCodeArea'' then Fin 11
      else if t = Some ''Neighbourhood'' then Fin 14
      else if t = Some ''Street'' then Fin 15
      else if t = Some ''Address'' \<or> t = Some ''POI'' then Fin 16
      else Fin 12)"

text \<open>\<open>v || d\<close> on a string property.\<close>

definition or_else :: "string option \<Rightarrow> string \<Rightarrow> string" where
  "or_else v d = (case v of Some x \<Rightarrow> if x \<noteq> [] then x else d | None \<Rightarrow> d)"

text \<open>
  From the upstream data to the answer (lines 164 to 221); \<open>Inl\<close> is the TypeError of
  \<open>data.results\<close> on \<open>null\<close>, which the outer \<open>catch\<close> would receive
  (\<open>makeRequestWithRetry\<close> does not return \<open>null\<close>).  The rendering of a number in the
  message is the host's and is a parameter.
\<close>

definition geocode_answer :: "(number \<Rightarrow> string) \<Rightarrow> string \<Rightarrow> az_data \<Rightarrow> exn + geo_route_reply" where
  "geocode_answer numstr query data =
     (case data of
        AzNull \<Rightarrow> Inl (Error ''Cannot read properties of null'')
      | AzResults [] \<Rightarrow> Inr (200, BodyNoLocation)
      | AzResults (result # others) \<Rightarrow>
          (case position result of
             NoPosition \<Rightarrow> Inr (500, BodyError ''Invalid position data in geocoding result'')
           | Position None lat \<Rightarrow> Inr (500, BodyError ''Invalid position data in geocoding result'')
           | Position (Some lon) None \<Rightarrow>
               Inr (500, BodyError ''Invalid position data in geocoding result'')
           | Position (Some lon) (Some lat) \<Rightarrow>
               if \<not> validateCoordinates lon lat
               then Inr (400, BodyError (''Invalid coordinates: '' @ numstr lon @ '', '' @ numstr lat))
               else (let zoom = zoom_for (entityType result);
                         address = (case address result of
                                      Some a \<Rightarrow> a
                                    | None \<Rightarrow> \<lparr>freeformAddress = Some query, country = None\<rparr>)
                     in Inr (200, BodyLocation
                          \<lparr>name = or_else (freeformAddress address) query,
                           coordinates = [lon, lat],
                           zoom = zoom,
                           description =
                             Some (if or_else (country address) [] \<noteq> []
                                   then or_else (freeformAddress address) [] @ '', '' @
                                        or_else (country address) []
                                   else or_else (freeformAddress address) query)\<rparr>))))"

text \<open>The body of the request: unreadable, or read with its \<open>query\<close> property.\<close>

datatype geo_request = GeoBodyUnreadable | GeoQuery "string option"

text \<open>
  \<open>POST(request)\<close>.  The throttle runs once, before \<open>makeRequestWithRetry\<close>, and only it
  writes \<open>lastRequestTime\<close>.
\<close>

definition POST_geocode ::
  "(number \<Rightarrow> string) \<Rightarrow> string option \<Rightarrow> geo_request \<Rightarrow> nat \<Rightarrow> (nat \<Rightarrow> az_attempt) \<Rightarrow> tstate
   \<Rightarrow> geo_route_reply \<times> tstate \<times> (int \<times> string) list \<times> nat list" where
  "POST_geocode numstr AZURE_MAPS_KEY request lag env s =
     (case request of
        GeoBodyUnreadable \<Rightarrow> ((400, BodyError ''Invalid request format''), s, [], [])
      | GeoQuery q \<Rightarrow>
          if or_else q [] = [] then ((400, BodyError ''Query parameter is required''), s, [], [])
          else if unset AZURE_MAPS_KEY then ((500, BodyError ''Configuration error''), s, [], [])
          else (let query = the q;
                    s1 = acquire (int route_MIN_REQUEST_INTERVAL) lag s
                in case makeRequestWithRetry env 0 query route_MAX_RETRIES s1 of
                     (Inl error, s', ds, bs) \<Rightarrow>
                       (if isRateLimitError error
                        then (429, BodyError ''Too Many Requests: Service temporarily unavailable'')
                        else (500, BodyError (message error)), s', ds, bs)
                   | (Inr data, s', ds, bs) \<Rightarrow>
                       (case geocode_answer numstr query data of
                          Inl error \<Rightarrow> ((500, BodyError (message error)), s', ds, bs)
                        | Inr answer \<Rightarrow> (answer, s', ds, bs))))"

text \<open>
  The answer as the client receives it.  \<open>NextResponse.json(body, { status })\<close> sends the
  body as JSON text with the content type \<open>application/json\<close>, and \<open>response.json()\<close>
  parses that text again: a number that is not finite arrives as \<open>null\<close>, and a property
  that is \<open>undefined\<close> does not arrive.  \<open>body_text\<close> stands for the text, which the
  client does not read under this content type.
\<close>

definition number_sent :: "number \<Rightarrow> json" where
  "number_sent x = (case x of Fin v \<Rightarrow> JNum (Fin v) | _ \<Rightarrow> JNull)"

definition location_sent :: "location \<Rightarrow> json" where
  "location_sent loc =
     JObj ([(''name'', JStr (name loc)),
            (''coordinates'', JArr (map number_sent (coordinates loc))),
            (''zoom'', number_sent (zoom loc))] @
           (case description loc of Some d \<Rightarrow> [(''description'', JStr d)] | None \<Rightarrow> []))"

definition quoted :: "string \<Rightarrow> string" where
  "quoted str = [CHR 0x22] @ str @ [CHR 0x22]"

definition route_response :: "string \<Rightarrow> geo_route_reply \<Rightarrow> geo_response" where
  "route_response body_text reply =
     \<lparr>g_status = fst reply,
      g_content_type = ''application/json'',
      g_text = Inr body_text,
      g_json =
        Inr (case snd reply of
               BodyLocation loc \<Rightarrow> JObj [(''location'', location_sent loc)]
             | BodyNoLocation \<Rightarrow> JObj [(''location'', JNull)]
             | BodyError msg \<Rightarrow> JObj [(''error'', JStr msg)]),
      g_error_detail =
        (case snd reply of
           BodyError msg \<Rightarrow>
             Some (if msg \<noteq> [] then msg else ''{'' @ quoted ''error'' @ '':'' @ quoted [] @ ''}'')
         | BodyNoLocation \<Rightarrow> Some (''{'' @ quoted ''location'' @ '':null}'')
         | BodyLocation loc \<Rightarrow> Some body_text)\<rparr>"

section \<open>The static-map route: \<open>GET\<close> (app/api/static-map/route.ts)\<close>

text \<open>The three query parameters as \<open>url.searchParams.get\<close> gives them: \<open>null\<close> is \<open>None\<close>.\<close>

record map_query =
  q_longitude :: "string option"
  q_latitude :: "string option"
  q_zoom :: "string option"

datatype map_body = MapUrl string | MapError string

text \<open>
  \<open>Number.parseFloat\<close>, \<open>Number.parseInt\<close> and the rendering of a number in a template
  string are the host's: they are parameters.  \<open>or_else v ''0''\<close> is \<open>v || "0"\<close>.
\<close>

definition map_longitude :: "(string \<Rightarrow> number) \<Rightarrow> map_query \<Rightarrow> number" where
  "map_longitude parseFloat q = parseFloat (or_else (q_longitude q) ''0'')"

definition map_latitude :: "(string \<Rightarrow> number) \<Rightarrow> map_query \<Rightarrow> number" where
  "map_latitude parseFloat q = parseFloat (or_else (q_latitude q) ''0'')"

definition map_zoom :: "(string \<Rightarrow> number) \<Rightarrow> map_query \<Rightarrow> number" where
  "map_zoom parseInt q = parseInt (or_else (q_zoom q) ''10'')"

definition mapUrl :: "(number \<Rightarrow> string) \<Rightarrow> number \<Rightarrow> number \<Rightarrow> number \<Rightarrow> string \<Rightarrow> string" where
  "mapUrl numstr zoomLevel longitude latitude apiKey =
     ''https://atlas.microsoft.com/map/static/png?api-version=1.0&layer=basic&style=main&zoom='' @
     numstr zoomLevel @ ''&center='' @ numstr longitude @ '','' @ numstr latitude @
     ''&width=800&height=500&subscription-key='' @ apiKey"

definition GET_static_map ::
  "(string \<Rightarrow> number) \<Rightarrow> (string \<Rightarrow> number) \<Rightarrow> (number \<Rightarrow> string) \<Rightarrow> string option \<Rightarrow> map_query
   \<Rightarrow> nat \<times> map_body" where
  "GET_static_map parseFloat parseInt numstr AZURE_MAPS_KEY q =
     (let longitude = map_longitude parseFloat q;
          latitude = map_latitude parseFloat q;
          zoom = map_zoom parseInt q
      in if isNaN longitude \<or> isNaN latitude \<or> num_lt longitude (-180) \<or> num_gt longitude 180 \<or>
            num_lt latitude (-90) \<or> num_gt latitude 90
         then (400, MapError ''Invalid coordinates'')
         else if isNaN zoom \<or> num_lt zoom 1 \<or> num_gt zoom 20
         then (400, MapError ''Invalid zoom level'')
         else if unset AZURE_MAPS_KEY
         then (500, MapError ''Map service configuration error'')
         else (200, MapUrl (mapUrl numstr zoom longitude latitude (the AZURE_MAPS_KEY))))"

section \<open>The page: rate-limit flags, counters and cooldown timers (app/page.tsx)\<close>

text \<open>
  The state and the refs of \<open>Home\<close> that \<open>handleSendMessage\<close> reads and writes.  A timer
  ref holds the time at which its pending timer fires, \<open>None\<close> when none is pending.
\<close>

record page_state =
  now :: int
  chat_messages :: "message list"
  currentLocation :: located
  error_banner :: "string option"
  geocodingError :: "string option"
  isMapRateLimited :: bool
  isChatRateLimited :: bool
  rateLimitTimerRef :: "int option"
  chatRateLimitTimerRef :: "int option"
  geocodingErrorTimerRef :: "int option"
  consecutiveErrorsRef :: nat
  geocodingErrorsRef :: nat

definition defaultLocation :: location where
  "defaultLocation =
     \<lparr>name = ''Paris'', coordinates = [Fin 2.3522, Fin 48.8566], zoom = Fin 12,
      description = Some ''La capitale de la France, connue pour la Tour Eiffel et le Louvre.''\<rparr>"

definition initial_page :: "int \<Rightarrow> page_state" where
  "initial_page t =
     \<lparr>now = t,
      chat_messages = [\<lparr>role = Assistant, content = ''Bonjour ! O'' @ [CHR 0xF9] @ '' souhaitez-vous voyager ?''\<rparr>],
      currentLocation = Literal defaultLocation,
      error_banner = None, geocodingError = None,
      isMapRateLimited = False, isChatRateLimited = False,
      rateLimitTimerRef = None, chatRateLimitTimerRef = None, geocodingErrorTimerRef = None,
      consecutiveErrorsRef = 0, geocodingErrorsRef = 0\<rparr>"

text \<open>
  The three setters clear the pending timer and, when they set, start a new one: one
  minute for the two rate-limit flags, ten seconds for the geocoding error.
\<close>

definition setMapRateLimitWithCooldown :: "bool \<Rightarrow> page_state \<Rightarrow> page_state" where
  "setMapRateLimitWithCooldown limited st =
     st\<lparr>isMapRateLimited := limited,
        rateLimitTimerRef := (if limited then Some (now st + 60000) else None)\<rparr>"

definition setChatRateLimitWithCooldown :: "bool \<Rightarrow> page_state \<Rightarrow> page_state" where
  "setChatRateLimitWithCooldown limited st =
     st\<lparr>isChatRateLimited := limited,
        chatRateLimitTimerRef := (if limited then Some (now st + 60000) else None)\<rparr>"

definition setGeocodingErrorWithTimeout :: "string option \<Rightarrow> page_state \<Rightarrow> page_state" where
  "setGeocodingErrorWithTimeout errorMessage st =
     st\<lparr>geocodingError := errorMessage,
        geocodingErrorTimerRef :=
          (if or_else errorMessage [] \<noteq> [] then Some (now st + 10000) else None)\<rparr>"





text \<open>
  The reply counts as a rate-limit signal when it contains one of three phrases of the
  degraded replies (lines 188 to 192).
\<close>

definition is_rate_limit_reply :: "string \<Rightarrow> bool" where
  "is_rate_limit_reply reply =
     (js_includes reply ''trop de demandes'' \<or>
      js_includes reply (''surcharg'' @ [CHR 0xE9]) \<or>
      js_includes reply (reessayer @ '' dans quelques instants''))"

text \<open>The handling of a geocoding result: lines 135 to 162 (\<open>shows\<close>) and 217 to 238.\<close>

definition geocoding_done :: "bool \<Rightarrow> exn + located option \<Rightarrow> page_state \<Rightarrow> page_state" where
  "geocoding_done shows r st =
     (case r of
        Inr (Some detectedLocation) \<Rightarrow>
          st\<lparr>currentLocation := detectedLocation, geocodingErrorsRef := 0\<rparr>
      | Inr None \<Rightarrow> st
      | Inl geocodeError \<Rightarrow>
          if isRateLimitError geocodeError then setMapRateLimitWithCooldown True st
          else (let st' = st\<lparr>geocodingErrorsRef := geocodingErrorsRef st + 1\<rparr>
                in if shows \<and> geocodingErrorsRef st' \<ge> 2
                   then setGeocodingErrorWithTimeout (Some (message geocodeError)) st'
                   else st'))"

text \<open>The counter of consecutive rate-limit replies (lines 187 to 204).\<close>

definition chat_replied :: "string \<Rightarrow> page_state \<Rightarrow> page_state" where
  "chat_replied reply st =
     (if is_rate_limit_reply reply
      then (let st' = st\<lparr>consecutiveErrorsRef := consecutiveErrorsRef st + 1\<rparr>
            in if consecutiveErrorsRef st' \<ge> 2 then setChatRateLimitWithCooldown True st' else st')
      else st\<lparr>consecutiveErrorsRef := 0\<rparr>)"

definition add_message :: "role \<Rightarrow> string \<Rightarrow> page_state \<Rightarrow> page_state" where
  "add_message r c st = st\<lparr>chat_messages := chat_messages st @ [\<lparr>role = r, content = c\<rparr>]\<rparr>"


section \<open>Notions used in the statements\<close>

text \<open>An object whose \<open>reply\<close> property is a string.\<close>

definition has_reply :: "json \<Rightarrow> bool" where
  "has_reply data =
     (case get_prop (Some data) ''reply'' of Inr (Some (JStr r)) \<Rightarrow> True | _ \<Rightarrow> False)"

text \<open>The three environment variables of the chat route are set.\<close>

definition chat_configured :: "chat_config \<Rightarrow> bool" where
  "chat_configured cfg =
     (\<not> unset (AZURE_OPENAI_ENDPOINT cfg) \<and> \<not> unset (AZURE_OPENAI_KEY cfg) \<and>
      \<not> unset (AZURE_OPENAI_DEPLOYMENT cfg))"

text \<open>
  The fixed degraded replies of the chat route, and the real reply a response carries:
  the \<open>content\<close> string of the \<open>message\<close> of its first choice.
\<close>

definition chat_degraded_replies :: "string list" where
  "chat_degraded_replies =
     [reply_trop_de_demandes, reply_difficultes, reply_interpreter, reply_invalide,
      reply_inattendu, reply_erreur]"

definition real_reply :: "response \<Rightarrow> string option" where
  "real_reply r =
     (case json_body r of
        None \<Rightarrow> None
      | Some data \<Rightarrow>
          (case get_prop (Some data) ''choices'' of
             Inr (Some (JArr (first # rest))) \<Rightarrow>
               (case get_prop (Some first) ''message'' of
                  Inr msg \<Rightarrow>
                    (case get_prop msg ''content'' of Inr (Some (JStr c)) \<Rightarrow> Some c | _ \<Rightarrow> None)
                | Inl e \<Rightarrow> None)
           | _ \<Rightarrow> None))"

text \<open>Successive times of a list are at least \<open>m\<close> apart.\<close>

fun spaced :: "int \<Rightarrow> int list \<Rightarrow> bool" where
  "spaced m [] = True"
| "spaced m [t] = True"
| "spaced m (t # u # ts) = (m \<le> u - t \<and> spaced m (u # ts))"

text \<open>
  A call that takes the throttle from \<open>s\<close> to \<open>s'\<close> and dispatches at the times \<open>ds\<close>
  respects the interval \<open>m\<close>: the dispatches are spaced, the first one comes \<open>m\<close> after
  the last request recorded in \<open>s\<close>, and \<open>s'\<close> records the last one.
\<close>

definition throttled :: "int \<Rightarrow> tstate \<Rightarrow> int list \<Rightarrow> tstate \<Rightarrow> bool" where
  "throttled m s ds s' =
     (spaced m ds \<and>
      (if ds = [] then lastRequestTime s' = lastRequestTime s
       else lastRequestTime s + m \<le> hd ds \<and> lastRequestTime s' = last ds))"




text \<open>
  The state in which a geocoder is after it was called for the names of a list one after
  the other, from the state \<open>s\<close>; and the call number \<open>k\<close> of such a run: the name asked
  and what the geocoder gives for it in the state the calls before have left.
\<close>

definition state_after :: "'s geocoder \<Rightarrow> string list \<Rightarrow> 's \<Rightarrow> 's" where
  "state_after geocode names s = foldl (\<lambda>s' n. snd (geocode n s')) s names"


text \<open>The text contains the key when the case of letters is ignored.\<close>

definition contains_ignoring_case :: "string \<Rightarrow> string \<Rightarrow> bool" where
  "contains_ignoring_case text key = js_includes (toLowerCase text) (toLowerCase key)"

text \<open>
  A number is a finite value between two bounds (so it is not NaN), and a location has
  valid coordinates when they are a longitude in [-180, 180] and a latitude in [-90, 90].
\<close>

definition in_range :: "number \<Rightarrow> real \<Rightarrow> real \<Rightarrow> bool" where
  "in_range x lo hi = (case x of Fin v \<Rightarrow> lo \<le> v \<and> v \<le> hi | _ \<Rightarrow> False)"

definition valid_location :: "location \<Rightarrow> bool" where
  "valid_location loc =
     (case coordinates loc of
        [lon, lat] \<Rightarrow> in_range lon (-180) 180 \<and> in_range lat (-90) 90
      | _ \<Rightarrow> False)"

text \<open>
  The same of a \<open>Location\<close> at run time; for one received, its \<open>coordinates\<close> are an array
  of two values that are numbers, in range.
\<close>

fun valid_located :: "located \<Rightarrow> bool" where
  "valid_located (Literal loc) = valid_location loc"
| "valid_located (Received v) =
     (case get_prop (Some v) ''coordinates'' of
        Inr (Some (JArr [JNum lon, JNum lat])) \<Rightarrow> in_range lon (-180) 180 \<and> in_range lat (-90) 90
      | _ \<Rightarrow> False)"

section \<open>Scenarios\<close>

text \<open>A rendering of numbers for the scenarios; none of them renders a number.\<close>

definition numstr0 :: "number \<Rightarrow> string" where
  "numstr0 x = ''0''"

definition start :: tstate where
  "start = \<lparr>clock = 10000, lastRequestTime = 0\<rparr>"

text \<open>An upstream that answers every attempt after 100 ms with a bare 429.\<close>

definition always_429 :: "nat \<Rightarrow> attempt" where
  "always_429 i =
     \<lparr>throttle_lag = 0, latency = 100,
      outcome = Response \<lparr>status = 429, json_body = None, text_body = None\<rparr>,
      backoff_lag = 0\<rparr>"

text \<open>
  The history the page sends at the third turn: the greeting, two exchanges and the new
  user message.
\<close>

definition third_turn_history :: "message list" where
  "third_turn_history =
     [\<lparr>role = Assistant, content = ''Bonjour''\<rparr>, \<lparr>role = User, content = ''u1''\<rparr>,
      \<lparr>role = Assistant, content = ''a1''\<rparr>, \<lparr>role = User, content = ''u2''\<rparr>,
      \<lparr>role = Assistant, content = ''a2''\<rparr>, \<lparr>role = User, content = ''u3''\<rparr>]"

text \<open>An upstream that answers 429 twice and then with a reply.\<close>

definition twice_429_then_reply :: "nat \<Rightarrow> attempt" where
  "twice_429_then_reply i =
     \<lparr>throttle_lag = 0, latency = 100,
      outcome =
        Response (if i < 2 then \<lparr>status = 429, json_body = None, text_body = None\<rparr>
                  else \<lparr>status = 200, json_body = Some (reply_obj ''Bonjour de Lyon''),
                        text_body = None\<rparr>),
      backoff_lag = 0\<rparr>"

definition config_set :: chat_config where
  "config_set =
     \<lparr>AZURE_OPENAI_ENDPOINT = Some ''https://example.openai.azure.com'',
      AZURE_OPENAI_KEY = Some ''key'', AZURE_OPENAI_DEPLOYMENT = Some ''gpt''\<rparr>"

definition config_missing :: chat_config where
  "config_missing =
     \<lparr>AZURE_OPENAI_ENDPOINT = None, AZURE_OPENAI_KEY = None, AZURE_OPENAI_DEPLOYMENT = None\<rparr>"

text \<open>
  Calls one after the other, each \<open>idle\<close> milliseconds after the one before returned and
  with the script of its attempts; the result is the sequence of the requests dispatched.
\<close>

fun sendMessage_calls ::
  "(number \<Rightarrow> string) \<Rightarrow> (nat \<times> (nat \<Rightarrow> attempt) \<times> message list \<times> nat \<times> nat) list \<Rightarrow> tstate
   \<Rightarrow> (int \<times> message list) list" where
  "sendMessage_calls numstr [] s = []"
| "sendMessage_calls numstr ((idle, env, messages, retries, delay) # rest) s =
     (case sendMessage numstr env 0 messages retries delay (elapse idle s) of
        (r, s', ds, bs) \<Rightarrow> ds @ sendMessage_calls numstr rest s')"

fun geocodeLocation_calls ::
  "(json \<Rightarrow> exn + number) \<Rightarrow> (nat \<times> (nat \<Rightarrow> geo_attempt) \<times> string \<times> nat \<times> nat) list \<Rightarrow> tstate
   \<Rightarrow> (int \<times> string) list" where
  "geocodeLocation_calls host [] s = []"
| "geocodeLocation_calls host ((idle, env, locationName, retries, delay) # rest) s =
     (case geocodeLocation host env 0 locationName retries delay (elapse idle s) of
        (r, s', ds, bs) \<Rightarrow> ds @ geocodeLocation_calls host rest s')"

fun fetchWithRetry_calls ::
  "(nat \<times> (nat \<Rightarrow> attempt) \<times> 'req \<times> nat \<times> nat) list \<Rightarrow> tstate \<Rightarrow> (int \<times> 'req) list" where
  "fetchWithRetry_calls [] s = []"
| "fetchWithRetry_calls ((idle, env, options, retries, delay) # rest) s =
     (case fetchWithRetry env 0 options retries delay (elapse idle s) of
        (r, s', ds, bs) \<Rightarrow> ds @ fetchWithRetry_calls rest s')"

text \<open>
  Requests to the geocode route, one after the other: each comes \<open>idle\<close> milliseconds
  after the answer to the one before, with the lag of its throttle timer and the script of
  its upstream attempts.  The result is the sequence of the upstream requests dispatched.
\<close>

fun POST_geocode_calls ::
  "(number \<Rightarrow> string) \<Rightarrow> string option \<Rightarrow> (nat \<times> geo_request \<times> nat \<times> (nat \<Rightarrow> az_attempt)) list
   \<Rightarrow> tstate \<Rightarrow> (int \<times> string) list" where
  "POST_geocode_calls numstr apiKey [] s = []"
| "POST_geocode_calls numstr apiKey ((idle, request, lag, env) # rest) s =
     (case POST_geocode numstr apiKey request lag env (elapse idle s) of
        (reply, s', ds, bs) \<Rightarrow> ds @ POST_geocode_calls numstr apiKey rest s')"

text \<open>
  An upstream geocoder that answers 429 to the first attempt of a request and then finds
  nothing, and one that finds nothing at once; each answer takes 100 ms.
\<close>

definition az_429 :: az_response where
  "az_429 =
     \<lparr>a_status = 429, a_content_type = ''application/json'', a_error_json = None,
      a_error_text = None, a_data = None\<rparr>"

definition az_no_results :: az_response where
  "az_no_results =
     \<lparr>a_status = 200, a_content_type = ''application/json'', a_error_json = None,
      a_error_text = None, a_data = Some (AzResults [])\<rparr>"

definition once_429 :: "nat \<Rightarrow> az_attempt" where
  "once_429 i =
     \<lparr>a_latency = 100, a_outcome = AzResponse (if i = 0 then az_429 else az_no_results),
      a_backoff_lag = 0\<rparr>"

definition no_results :: "nat \<Rightarrow> az_attempt" where
  "no_results i = \<lparr>a_latency = 100, a_outcome = AzResponse az_no_results, a_backoff_lag = 0\<rparr>"

text \<open>
  A geocoder for the scenarios, whose state counts its calls: rate limited on Lyon, failing
  otherwise on Berne, without a match for any other name.
\<close>

definition scripted_geocoder :: "nat geocoder" where
  "scripted_geocoder locationName n =
     (if locationName = ''Lyon'' then Inl too_many_requests
      else if locationName = ''Berne'' then Inl (Error ''Failed to fetch'')
      else Inr None, Suc n)"


definition paris_sentence :: string where
  "paris_sentence = ''Je veux visiter Paris cet '' @ [CHR 0xE9] @ ''t'' @ [CHR 0xE9]"

text \<open>
  The route's answer to a result with longitude 200, as the client receives it: status
  400 with an error in JSON, after 100 ms, at every attempt.
\<close>

definition invalid_coordinates_400 :: geo_response where
  "invalid_coordinates_400 =
     \<lparr>g_status = 400, g_content_type = ''application/json'',
      g_text = Inr (''{'' @ quoted ''error'' @ '':'' @ quoted ''Invalid coordinates: 200, 48.8'' @ ''}''),
      g_json = Inr (JObj [(''error'', JStr ''Invalid coordinates: 200, 48.8'')]),
      g_error_detail = Some ''Invalid coordinates: 200, 48.8''\<rparr>"

definition always_400 :: "nat \<Rightarrow> geo_attempt" where
  "always_400 i =
     \<lparr>g_throttle_lag = 0, g_latency = 100, g_outcome = GeoResponse invalid_coordinates_400,
      g_backoff_lag = 0\<rparr>"

text \<open>
  A host conversion for the scenarios: it makes NaN of every string, array and object.
\<close>

definition not_a_number :: "json \<Rightarrow> exn + number" where
  "not_a_number v = Inr NaN"

text \<open>
  Upstream results with longitude 200, for Lyon, and with longitude 429; the upstream that
  answers every attempt with one result, after 100 ms; and two renderings of numbers that
  know the numbers they are asked for.
\<close>

definition az_longitude_200 :: az_result where
  "az_longitude_200 =
     \<lparr>position = Position (Some (Fin 200)) (Some (Fin 48.8)), entityType = Some ''Municipality'',
      address = None\<rparr>"

definition az_lyon :: az_result where
  "az_lyon =
     \<lparr>position = Position (Some (Fin 4.8357)) (Some (Fin 45.764)), entityType = Some ''Municipality'',
      address = Some \<lparr>freeformAddress = Some ''Lyon'', country = Some ''France''\<rparr>\<rparr>"

definition az_longitude_429 :: az_result where
  "az_longitude_429 =
     \<lparr>position = Position (Some (Fin 429)) (Some (Fin 48.8)), entityType = Some ''Municipality'',
      address = None\<rparr>"

definition upstream_finds :: "az_result \<Rightarrow> nat \<Rightarrow> az_attempt" where
  "upstream_finds result i =
     \<lparr>a_latency = 100,
      a_outcome = AzResponse
        \<lparr>a_status = 200, a_content_type = ''application/json'', a_error_json = None,
         a_error_text = None, a_data = Some (AzResults [result])\<rparr>,
      a_backoff_lag = 0\<rparr>"

definition show_coordinate :: "number \<Rightarrow> string" where
  "show_coordinate x =
     (if x = Fin 429 then ''429'' else if x = Fin 200 then ''200''
      else if x = Fin 48.8 then ''48.8'' else ''0'')"


text \<open>
  The client behind the route: every attempt of the client is answered, after 100 ms, by
  the route, which asks an upstream that finds \<open>result\<close> (the answer of the route does not
  depend on its clock).
\<close>

definition through_route :: "string \<Rightarrow> string \<Rightarrow> az_result \<Rightarrow> nat \<Rightarrow> geo_attempt" where
  "through_route body_text query result i =
     \<lparr>g_throttle_lag = 0, g_latency = 100,
      g_outcome = GeoResponse (route_response body_text
        (fst (POST_geocode show_coordinate (Some ''key'') (GeoQuery (Some query)) 0
                (upstream_finds result) start))),
      g_backoff_lag = 0\<rparr>"

text \<open>
  A response of status 200 whose location has the coordinates \<open>[null, null]\<close>, which the
  route does not send.
\<close>

definition null_coordinates_text :: string where
  "null_coordinates_text =
     ''{'' @ quoted ''location'' @ '':{'' @ quoted ''name'' @ '':'' @ quoted ''Nowhere'' @ '','' @
     quoted ''coordinates'' @ '':[null,null]}}''"

definition null_coordinates :: geo_response where
  "null_coordinates =
     \<lparr>g_status = 200, g_content_type = ''application/json'',
      g_text = Inr null_coordinates_text,
      g_json = Inr (JObj [(''location'',
                 JObj [(''name'', JStr ''Nowhere''), (''coordinates'', JArr [JNull, JNull])])]),
      g_error_detail = Some null_coordinates_text\<rparr>"

definition always_null_coordinates :: "nat \<Rightarrow> geo_attempt" where
  "always_null_coordinates i =
     \<lparr>g_throttle_lag = 0, g_latency = 100, g_outcome = GeoResponse null_coordinates,
      g_backoff_lag = 0\<rparr>"


definition no_parameters :: map_query where
  "no_parameters = \<lparr>q_longitude = None, q_latitude = None, q_zoom = None\<rparr>"




section \<open>Properties\<close>

subsection \<open>History truncation\<close>

lemma recentMessages_long_no_system:
  assumes "\<not> list_ex (\<lambda>m. role m = System) messages" and "5 \<le> length messages"
  shows "recentMessages messages = drop (length messages - 5) messages"
proof -
  have "length (systemMessage # messages) - 5 = Suc (length messages - 5)"
    using assms(2) by simp
  then show ?thesis
    using assms(1) by (simp add: recentMessages_def messagesWithSystem_def slice_last_def)
qed

text \<open>
  C6.  The history of the third turn of a conversation contains no system entry, so the
  route prepends the system prompt; the truncation to the last five entries then removes
  it again.  What is sent upstream is the last five messages of the history: its entry
  zero is a user message and no entry is a system entry.  The configured route sends
  exactly that at each of its attempts.
\<close>

theorem C6_system_prompt_dropped:
  "recentMessages third_turn_history =
     [\<lparr>role = User, content = ''u1''\<rparr>, \<lparr>role = Assistant, content = ''a1''\<rparr>,
      \<lparr>role = User, content = ''u2''\<rparr>, \<lparr>role = Assistant, content = ''a2''\<rparr>,
      \<lparr>role = User, content = ''u3''\<rparr>] \<and>
   role (hd (recentMessages third_turn_history)) = User \<and>
   \<not> list_ex (\<lambda>m. role m = System) (recentMessages third_turn_history) \<and>
   map snd (fst (snd (snd (POST_chat config_set (Messages third_turn_history) always_429 start)))) =
     replicate 4
       [\<lparr>role = User, content = ''u1''\<rparr>, \<lparr>role = Assistant, content = ''a1''\<rparr>,
        \<lparr>role = User, content = ''u2''\<rparr>, \<lparr>role = Assistant, content = ''a2''\<rparr>,
        \<lparr>role = User, content = ''u3''\<rparr>]"
proof -
  have recent: "recentMessages third_turn_history =
     [\<lparr>role = User, content = ''u1''\<rparr>, \<lparr>role = Assistant, content = ''a1''\<rparr>,
      \<lparr>role = User, content = ''u2''\<rparr>, \<lparr>role = Assistant, content = ''a2''\<rparr>,
      \<lparr>role = User, content = ''u3''\<rparr>]"
    by (simp add: recentMessages_def messagesWithSystem_def slice_last_def third_turn_history_def)
  have sent: "map snd (fst (snd (snd
      (fetchWithRetry always_429 0 (recentMessages third_turn_history) chat_MAX_RETRIES
         chat_INITIAL_RETRY_DELAY start)))) =
      replicate 4 (recentMessages third_turn_history)"
    by (simp add: fetchWithRetry.simps always_429_def Let_def chat_MAX_RETRIES_def
        numeral_eq_Suc)
  have "map snd (fst (snd (snd (POST_chat config_set (Messages third_turn_history) always_429 start))))
        = replicate 4 (recentMessages third_turn_history)"
    using sent
    by (auto simp: POST_chat_def config_set_def unset_def split: prod.splits sum.splits)
  with recent show ?thesis by simp
qed

subsection \<open>The chat client and the chat route answer\<close>

lemma sendMessage_pass_not_Throw: "sendMessage_pass numstr res retries \<noteq> Throw e"
  by (auto simp: sendMessage_pass_def sendMessage_try_def sendMessage_catch_def
      split: fetch_result.splits if_splits option.splits step.splits)

lemma has_reply_obj: "has_reply (reply_obj r)"
  by (simp add: has_reply_def reply_obj_def)

lemma is_string_has_reply:
  assumes "case get_prop (Some data) ''reply'' of Inl x \<Rightarrow> False | Inr v \<Rightarrow> is_string v"
  shows "has_reply data"
proof (cases "get_prop (Some data) ''reply''")
  case (Inl e)
  with assms show ?thesis by simp
next
  case (Inr v)
  with assms have "is_string v" by simp
  then obtain r where "v = Some (JStr r)"
    by (cases v rule: is_string.cases) auto
  with Inr show ?thesis by (simp add: has_reply_def)
qed

lemma sendMessage_pass_Return:
  "sendMessage_pass numstr res retries = Return data \<Longrightarrow> has_reply data"
  by (auto simp: sendMessage_pass_def sendMessage_try_def sendMessage_catch_def has_reply_obj
      split: fetch_result.splits if_splits option.splits step.splits dest: is_string_has_reply)

lemma sendMessage_never_throws:
  "\<exists>data s' ds bs.
     sendMessage numstr env i messages retries delay s = (Inr data, s', ds, bs) \<and> has_reply data"
proof (induction numstr env i messages retries delay s rule: sendMessage.induct)
  case (1 numstr env i messages retries delay s)
  show ?case
  proof (cases "sendMessage_pass numstr (outcome (env i)) retries")
    case Retry
    from 1[OF refl refl refl refl Retry] obtain data s' ds bs where
      "sendMessage numstr env (Suc i) messages (retries - 1) (delay * 2)
         (sleep delay (backoff_lag (env i))
           (elapse (latency (env i)) (acquire api_MIN_REQUEST_INTERVAL (throttle_lag (env i)) s)))
       = (Inr data, s', ds, bs)" and "has_reply data"
      by blast
    then show ?thesis
      by (subst sendMessage.simps) (simp add: Let_def Retry)
  next
    case (Return data)
    then show ?thesis
      by (subst sendMessage.simps) (auto simp: Let_def dest: sendMessage_pass_Return)
  next
    case (Throw e)
    then show ?thesis by (simp add: sendMessage_pass_not_Throw)
  qed
qed

lemma chat_handle_response_200:
  "chat_handle_response r = Inr (st, body) \<Longrightarrow> st = 200 \<and> has_reply body"
  unfolding chat_handle_response_def
  by (auto simp: has_reply_obj split: if_splits option.splits sum.splits json.splits list.splits)

lemma POST_chat_configured:
  assumes "chat_configured cfg"
  shows "fst (fst (POST_chat cfg request env s)) = 200 \<and>
         has_reply (snd (fst (POST_chat cfg request env s)))"
proof (cases request)
  case BodyUnreadable
  then show ?thesis by (simp add: POST_chat_def has_reply_obj)
next
  case MessagesUnusable
  with assms show ?thesis by (simp add: POST_chat_def has_reply_obj chat_configured_def)
next
  case (Messages messages)
  obtain res s' ds bs where f:
    "fetchWithRetry env 0 (recentMessages messages) chat_MAX_RETRIES chat_INITIAL_RETRY_DELAY s
       = (res, s', ds, bs)"
    by (metis prod_cases4)
  show ?thesis
  proof (cases res)
    case (Inl e)
    with assms Messages f show ?thesis
      by (simp add: POST_chat_def has_reply_obj chat_configured_def)
  next
    case (Inr r)
    show ?thesis
    proof (cases "chat_handle_response r")
      case (Inl e)
      with assms Messages f Inr show ?thesis
        by (simp add: POST_chat_def has_reply_obj chat_configured_def)
    next
      case r2: (Inr answer)
      obtain st body where a: "answer = (st, body)" by (cases answer)
      with r2 have "st = 200 \<and> has_reply body" by (simp add: chat_handle_response_200)
      with assms Messages f Inr r2 a show ?thesis
        by (simp add: POST_chat_def chat_configured_def)
    qed
  qed
qed

text \<open>
  What a configured route sends back is one of its fixed degraded replies, or the real
  reply of a successful response that the upstream gave during this request.
\<close>

lemma chat_handle_response_reply:
  assumes "chat_handle_response r = Inr (st, body)"
  shows "st = 200 \<and> (\<exists>c. body = reply_obj c \<and>
           (c \<in> set chat_degraded_replies \<or> (ok r \<and> real_reply r = Some c)))"
  using assms unfolding chat_handle_response_def real_reply_def chat_degraded_replies_def
  by (auto split: if_splits option.splits sum.splits json.splits list.splits)

lemma fetchWithRetry_returns_a_response:
  "fetchWithRetry env i options retries delay s = (Inr r, s', ds, bs)
   \<Longrightarrow> \<exists>j. outcome (env j) = Response r"
proof (induction env i options retries delay s arbitrary: s' ds bs rule: fetchWithRetry.induct)
  case (1 env i options retries delay s)
  note eq = "1.prems"[unfolded fetchWithRetry.simps[of env i options retries delay s] Let_def]
  let ?s3 = "sleep delay (backoff_lag (env i))
           (elapse (latency (env i)) (acquire MIN_OPENAI_REQUEST_INTERVAL (throttle_lag (env i)) s))"
  obtain r1 s1 ds1 bs1 where rec:
      "fetchWithRetry env (Suc i) options (retries - 1) (min (delay * 2) MAX_RETRY_DELAY) ?s3
       = (r1, s1, ds1, bs1)"
    by (metis prod_cases4)
  show ?case
  proof (cases "outcome (env i)")
    case (Response resp)
    show ?thesis
    proof (cases "status resp = 429 \<and> retries > 0")
      case True
      with eq Response rec have "r1 = Inr r" by auto
      with "1.IH"(2)[OF refl refl refl refl Response True] rec show ?thesis by blast
    next
      case False
      with eq Response have "resp = r" by auto
      with Response show ?thesis by blast
    qed
  next
    case (FetchThrows e)
    show ?thesis
    proof (cases "retries > 0")
      case True
      with eq FetchThrows rec have "r1 = Inr r" by auto
      with "1.IH"(1)[OF refl refl refl refl FetchThrows True] rec show ?thesis by blast
    next
      case False
      with eq FetchThrows show ?thesis by auto
    qed
  qed
qed

lemma reply_erreur_degraded: "reply_erreur \<in> set chat_degraded_replies"
  by (simp add: chat_degraded_replies_def)

lemma POST_chat_reply:
  assumes "chat_configured cfg"
  shows "fst (fst (POST_chat cfg request env s)) = 200 \<and>
         (\<exists>c. snd (fst (POST_chat cfg request env s)) = reply_obj c \<and>
              (c \<in> set chat_degraded_replies \<or>
               (\<exists>j r. outcome (env j) = Response r \<and> ok r \<and> real_reply r = Some c)))"
proof (cases request)
  case BodyUnreadable
  then show ?thesis using reply_erreur_degraded by (auto simp: POST_chat_def)
next
  case MessagesUnusable
  with assms show ?thesis using reply_erreur_degraded
    by (auto simp: POST_chat_def chat_configured_def)
next
  case (Messages messages)
  obtain res s' ds bs where f:
    "fetchWithRetry env 0 (recentMessages messages) chat_MAX_RETRIES chat_INITIAL_RETRY_DELAY s
       = (res, s', ds, bs)"
    by (metis prod_cases4)
  show ?thesis
  proof (cases res)
    case (Inl e)
    with assms Messages f show ?thesis using reply_erreur_degraded
      by (auto simp: POST_chat_def chat_configured_def)
  next
    case (Inr r)
    with f obtain j where j: "outcome (env j) = Response r"
      by (blast dest: fetchWithRetry_returns_a_response)
    show ?thesis
    proof (cases "chat_handle_response r")
      case (Inl e)
      with assms Messages f Inr show ?thesis using reply_erreur_degraded
        by (auto simp: POST_chat_def chat_configured_def)
    next
      case r2: (Inr answer)
      obtain st body where a: "answer = (st, body)" by (cases answer)
      with r2 chat_handle_response_reply[of r st body]
      obtain c where "st = 200" "body = reply_obj c"
        "c \<in> set chat_degraded_replies \<or> (ok r \<and> real_reply r = Some c)" by auto
      with assms Messages f Inr r2 a j show ?thesis
        by (auto simp: POST_chat_def chat_configured_def)
    qed
  qed
qed

lemma POST_chat_unconfigured:
  assumes "\<not> chat_configured cfg" and "request \<noteq> BodyUnreadable"
  shows "POST_chat cfg request env s =
         ((500, JObj [(''error'', JStr ''Service configuration error'')]), s, [], [])"
  using assms by (cases request) (auto simp: POST_chat_def chat_configured_def)

text \<open>
  The example of the specification: against an upstream that answers 429, 429 and then
  with a reply, \<open>sendMessage\<close> with its defaults returns the real reply at the third
  attempt, after delays of 2000 and 4000 ms.
\<close>

lemma sendMessage_third_attempt:
  "sendMessage numstr0 twice_429_then_reply 0 [] api_MAX_RETRIES api_INITIAL_RETRY_DELAY start =
     (Inr (reply_obj ''Bonjour de Lyon''), \<lparr>clock = 16300, lastRequestTime = 16200\<rparr>,
      [(10000, []), (12100, []), (16200, [])], [2000, 4000])"
  by (simp add: sendMessage.simps twice_429_then_reply_def Let_def start_def acquire_def elapse_def
      sleep_def api_MIN_REQUEST_INTERVAL_def api_MAX_RETRIES_def api_INITIAL_RETRY_DELAY_def
      sendMessage_pass_def sendMessage_try_def sendMessage_catch_def ok_def reply_obj_def)

text \<open>
  C1, as amended.  For every history, every script of upstream outcomes, every number of
  retries and every delay, \<open>sendMessage\<close> returns (it never throws) an object whose
  \<open>reply\<close> is a string.  When the three environment variables of the chat route are set,
  the route answers every request with status 200 and a body whose \<open>reply\<close> is a string:
  one of the six fixed degraded replies, or the content of the first choice of a successful
  upstream response of this request.
  When one of them is unset and the body of the request can be read, the route answers
  500 with \<open>error: "Service configuration error"\<close> and sends nothing upstream.
\<close>

theorem C1_chat_always_replies:
  "(\<exists>data s' ds bs.
      sendMessage numstr env i messages retries delay s = (Inr data, s', ds, bs) \<and> has_reply data) \<and>
   (chat_configured cfg \<longrightarrow>
      fst (fst (POST_chat cfg request env' t)) = 200 \<and>
      has_reply (snd (fst (POST_chat cfg request env' t))) \<and>
      (\<exists>c. snd (fst (POST_chat cfg request env' t)) = reply_obj c \<and>
           (c \<in> set chat_degraded_replies \<or>
            (\<exists>j r. outcome (env' j) = Response r \<and> ok r \<and> real_reply r = Some c)))) \<and>
   (\<not> chat_configured cfg \<and> request \<noteq> BodyUnreadable \<longrightarrow>
      POST_chat cfg request env' t =
        ((500, JObj [(''error'', JStr ''Service configuration error'')]), t, [], []))"
  using sendMessage_never_throws [of numstr env i messages retries delay s]
    POST_chat_configured [of cfg request env' t] POST_chat_reply [of cfg request env' t]
    POST_chat_unconfigured [of cfg request env' t]
  by blast

theorem C1_chat_always_replies_witness:
  "chat_configured config_set \<and>
   fst (fst (POST_chat config_set (Messages [\<lparr>role = User, content = ''Bonjour''\<rparr>]) always_429 start)) = 200 \<and>
   has_reply (snd (fst (POST_chat config_set (Messages [\<lparr>role = User, content = ''Bonjour''\<rparr>]) always_429 start))) \<and>
   \<not> chat_configured config_missing \<and>
   POST_chat config_missing (Messages [\<lparr>role = User, content = ''Bonjour''\<rparr>]) always_429 start =
     ((500, JObj [(''error'', JStr ''Service configuration error'')]), start, [], [])"
proof -
  have a: "chat_configured config_set"
    by (simp add: chat_configured_def config_set_def unset_def)
  have b: "\<not> chat_configured config_missing"
    by (simp add: chat_configured_def config_missing_def unset_def)
  show ?thesis
    using a b
      C1_chat_always_replies [of numstr0 always_429 0 "[]" 0 0 start config_set
        "Messages [\<lparr>role = User, content = ''Bonjour''\<rparr>]" always_429 start]
      C1_chat_always_replies [of numstr0 always_429 0 "[]" 0 0 start config_missing
        "Messages [\<lparr>role = User, content = ''Bonjour''\<rparr>]" always_429 start]
    by simp
qed

text \<open>
  The claim as stated fails: with the configuration missing, a well-formed request is
  answered with status 500, not 200.
\<close>

theorem C1_counterexample:
  "fst (fst (POST_chat config_missing (Messages [\<lparr>role = User, content = ''Bonjour''\<rparr>])
      always_429 start)) = 500"
  by (simp add: POST_chat_def config_missing_def unset_def)

subsection \<open>The throttle keeps dispatches apart\<close>

lemma acquire_clock: "lastRequestTime s + m \<le> clock (acquire m lag s)"
  by (simp add: acquire_def Let_def)

lemma acquire_last: "lastRequestTime (acquire m lag s) = clock (acquire m lag s)"
  by (simp add: acquire_def Let_def)

lemma elapse_last [simp]: "lastRequestTime (elapse d s) = lastRequestTime s"
  by (simp add: elapse_def)

lemma sleep_last [simp]: "lastRequestTime (sleep d lag s) = lastRequestTime s"
  by (simp add: sleep_def)

lemma spaced_append:
  "spaced m xs \<Longrightarrow> spaced m ys \<Longrightarrow> (xs \<noteq> [] \<Longrightarrow> ys \<noteq> [] \<Longrightarrow> m \<le> hd ys - last xs)
   \<Longrightarrow> spaced m (xs @ ys)"
proof (induction m xs rule: spaced.induct)
  case (1 m)
  then show ?case by simp
next
  case (2 m t)
  then show ?case by (cases ys) auto
next
  case (3 m t u ts)
  then show ?case by auto
qed

lemma throttled_Nil: "throttled m s [] s"
  by (simp add: throttled_def)

lemma throttled_seq:
  assumes "throttled m s ds1 s1" and "lastRequestTime s1' = lastRequestTime s1"
    and "throttled m s1' ds2 s2"
  shows "throttled m s (ds1 @ ds2) s2"
proof (cases "ds1 = []")
  case True
  with assms show ?thesis by (auto simp: throttled_def split: if_splits)
next
  case False
  show ?thesis
  proof (cases "ds2 = []")
    case True
    with assms False show ?thesis by (auto simp: throttled_def split: if_splits)
  next
    case ds2: False
    from assms False ds2 have "m \<le> hd ds2 - last ds1"
      by (auto simp: throttled_def split: if_splits)
    with assms False ds2 show ?thesis
      by (auto simp: throttled_def spaced_append split: if_splits)
  qed
qed

lemma throttled_first:
  assumes "throttled m (sleep d lag (elapse l (acquire m g s))) ds s'"
  shows "throttled m s (clock (acquire m g s) # ds) s'"
proof -
  let ?t = "clock (acquire m g s)"
  have t: "lastRequestTime s + m \<le> ?t" by (rule acquire_clock)
  have l: "lastRequestTime (sleep d lag (elapse l (acquire m g s))) = ?t"
    by (simp add: acquire_last)
  from assms l have sp: "spaced m (?t # ds)"
    by (cases ds) (auto simp: throttled_def split: if_splits)
  from assms l have "lastRequestTime s' = last (?t # ds)"
    by (auto simp: throttled_def split: if_splits)
  with sp t show ?thesis by (simp add: throttled_def)
qed

lemma throttled_single:
  "throttled m s [clock (acquire m g s)] (elapse l (acquire m g s))"
  by (simp add: throttled_def acquire_clock acquire_last)

lemma sendMessage_throttled:
  "sendMessage numstr env i messages retries delay s = (r, s', ds, bs)
   \<Longrightarrow> throttled api_MIN_REQUEST_INTERVAL s (map fst ds) s'"
proof (induction numstr env i messages retries delay s arbitrary: r s' ds bs rule: sendMessage.induct)
  case (1 numstr env i messages retries delay s)
  note eq = "1.prems"[unfolded sendMessage.simps[of numstr env i messages retries delay s] Let_def]
  show ?case
  proof (cases "sendMessage_pass numstr (outcome (env i)) retries")
    case Retry
    obtain r1 s1 ds1 bs1 where rec:
      "sendMessage numstr env (Suc i) messages (retries - 1) (delay * 2)
         (sleep delay (backoff_lag (env i))
           (elapse (latency (env i)) (acquire api_MIN_REQUEST_INTERVAL (throttle_lag (env i)) s)))
       = (r1, s1, ds1, bs1)"
      by (metis prod_cases4)
    from "1.IH"[OF refl refl refl refl Retry rec]
    have "throttled api_MIN_REQUEST_INTERVAL s
            (clock (acquire api_MIN_REQUEST_INTERVAL (throttle_lag (env i)) s) # map fst ds1) s1"
      by (rule throttled_first)
    with eq Retry rec show ?thesis by auto
  next
    case (Return data)
    with eq show ?thesis by (auto simp: throttled_single)
  next
    case (Throw e)
    with eq show ?thesis by (auto simp: throttled_single)
  qed
qed

lemma fetchWithRetry_throttled:
  "fetchWithRetry env i options retries delay s = (r, s', ds, bs)
   \<Longrightarrow> throttled MIN_OPENAI_REQUEST_INTERVAL s (map fst ds) s'"
proof (induction env i options retries delay s arbitrary: r s' ds bs rule: fetchWithRetry.induct)
  case (1 env i options retries delay s)
  note eq = "1.prems"[unfolded fetchWithRetry.simps[of env i options retries delay s] Let_def]
  let ?s3 = "sleep delay (backoff_lag (env i))
           (elapse (latency (env i)) (acquire MIN_OPENAI_REQUEST_INTERVAL (throttle_lag (env i)) s))"
  obtain r1 s1 ds1 bs1 where rec:
      "fetchWithRetry env (Suc i) options (retries - 1) (min (delay * 2) MAX_RETRY_DELAY) ?s3
       = (r1, s1, ds1, bs1)"
    by (metis prod_cases4)
  show ?case
  proof (cases "outcome (env i)")
    case (Response resp)
    show ?thesis
    proof (cases "status resp = 429 \<and> retries > 0")
      case True
      from "1.IH"(2)[OF refl refl refl refl Response True rec]
      have "throttled MIN_OPENAI_REQUEST_INTERVAL s
            (clock (acquire MIN_OPENAI_REQUEST_INTERVAL (throttle_lag (env i)) s) # map fst ds1) s1"
        by (rule throttled_first)
      with eq Response True rec show ?thesis by auto
    next
      case False
      with eq Response show ?thesis by (auto simp: throttled_single)
    qed
  next
    case (FetchThrows e)
    show ?thesis
    proof (cases "retries > 0")
      case True
      from "1.IH"(1)[OF refl refl refl refl FetchThrows True rec]
      have "throttled MIN_OPENAI_REQUEST_INTERVAL s
            (clock (acquire MIN_OPENAI_REQUEST_INTERVAL (throttle_lag (env i)) s) # map fst ds1) s1"
        by (rule throttled_first)
      with eq FetchThrows True rec show ?thesis by auto
    next
      case False
      with eq FetchThrows show ?thesis by (auto simp: throttled_single)
    qed
  qed
qed

subsection \<open>Attempts and retry delays\<close>

lemma sendMessage_trace:
  "sendMessage numstr env i messages retries delay s = (r, s', ds, bs)
   \<Longrightarrow> length ds = Suc (length bs) \<and> length bs \<le> retries \<and>
       bs = map (\<lambda>k. delay * 2 ^ k) [0..<length bs]"
proof (induction numstr env i messages retries delay s arbitrary: r s' ds bs rule: sendMessage.induct)
  case (1 numstr env i messages retries delay s)
  note eq = "1.prems"[unfolded sendMessage.simps[of numstr env i messages retries delay s] Let_def]
  show ?case
  proof (cases "sendMessage_pass numstr (outcome (env i)) retries")
    case Retry
    obtain r1 s1 ds1 bs1 where rec:
      "sendMessage numstr env (Suc i) messages (retries - 1) (delay * 2)
         (sleep delay (backoff_lag (env i))
           (elapse (latency (env i)) (acquire api_MIN_REQUEST_INTERVAL (throttle_lag (env i)) s)))
       = (r1, s1, ds1, bs1)"
      by (metis prod_cases4)
    from "1.IH"[OF refl refl refl refl Retry rec]
    have ih: "length ds1 = Suc (length bs1)" "length bs1 \<le> retries - 1"
      "bs1 = map (\<lambda>k. delay * 2 * 2 ^ k) [0..<length bs1]" by auto
    have pos: "retries > 0" using Retry by (rule sendMessage_pass_Retry)
    from eq Retry rec have bs: "bs = delay # bs1" and ds: "length ds = Suc (length ds1)" by auto
    have "map (\<lambda>k. delay * 2 ^ k) [0..<Suc (length bs1)]
          = delay # map (\<lambda>k. delay * 2 * 2 ^ k) [0..<length bs1]"
      by (simp add: upt_conv_Cons map_Suc_upt[symmetric] del: upt_Suc)
    with ih bs ds pos show ?thesis by auto
  next
    case (Return data)
    with eq show ?thesis by auto
  next
    case (Throw e)
    with eq show ?thesis by auto
  qed
qed

lemma min_double_cap:
  "min (min (d * 2) (M::nat) * 2 ^ k) M = min (d * 2 * 2 ^ k) M"
proof (cases "d * 2 \<le> M")
  case True
  then show ?thesis by (simp add: min_absorb1)
next
  case False
  then have a: "min (d * 2) M = M" by simp
  have "d * 2 \<le> d * 2 * 2 ^ k" by simp
  with False have "M \<le> d * 2 * 2 ^ k" by linarith
  then have b: "min (d * 2 * 2 ^ k) M = M" by (rule min_absorb2)
  have "M \<le> M * 2 ^ k" by simp
  then have c: "min (M * 2 ^ k) M = M" by (rule min_absorb2)
  show ?thesis by (simp only: a b c)
qed

lemma fetchWithRetry_trace:
  "fetchWithRetry env i options retries delay s = (r, s', ds, bs)
   \<Longrightarrow> length ds = Suc (length bs) \<and> length bs \<le> retries \<and>
       bs = (if bs = [] then []
             else delay # map (\<lambda>k. min (delay * 2 * 2 ^ k) MAX_RETRY_DELAY) [0..<length bs - 1])"
proof (induction env i options retries delay s arbitrary: r s' ds bs rule: fetchWithRetry.induct)
  case (1 env i options retries delay s)
  note eq = "1.prems"[unfolded fetchWithRetry.simps[of env i options retries delay s] Let_def]
  let ?s3 = "sleep delay (backoff_lag (env i))
           (elapse (latency (env i)) (acquire MIN_OPENAI_REQUEST_INTERVAL (throttle_lag (env i)) s))"
  let ?d = "min (delay * 2) MAX_RETRY_DELAY"
  obtain r1 s1 ds1 bs1 where rec:
      "fetchWithRetry env (Suc i) options (retries - 1) ?d ?s3 = (r1, s1, ds1, bs1)"
    by (metis prod_cases4)
  have step: "length ds = Suc (length bs) \<and> length bs \<le> retries \<and>
       bs = (if bs = [] then []
             else delay # map (\<lambda>k. min (delay * 2 * 2 ^ k) MAX_RETRY_DELAY) [0..<length bs - 1])"
    if ih: "length ds1 = Suc (length bs1)" "length bs1 \<le> retries - 1"
      "bs1 = (if bs1 = [] then []
              else ?d # map (\<lambda>k. min (?d * 2 * 2 ^ k) MAX_RETRY_DELAY) [0..<length bs1 - 1])"
      and pos: "retries > 0"
      and bs: "bs = delay # bs1"
      and ds: "ds = (clock (acquire MIN_OPENAI_REQUEST_INTERVAL (throttle_lag (env i)) s), options) # ds1"
  proof -
    have "bs1 = map (\<lambda>k. min (delay * 2 * 2 ^ k) MAX_RETRY_DELAY) [0..<length bs1]"
    proof (cases "bs1 = []")
      case True
      then show ?thesis by simp
    next
      case False
      then obtain n where n: "length bs1 = Suc n" by (cases bs1) auto
      have "map (\<lambda>k. min (delay * 2 * 2 ^ k) MAX_RETRY_DELAY) [0..<Suc n]
            = min (delay * 2) MAX_RETRY_DELAY #
              map (\<lambda>k. min (delay * 2 * 2 ^ Suc k) MAX_RETRY_DELAY) [0..<n]"
        by (simp add: upt_conv_Cons map_Suc_upt[symmetric] del: upt_Suc)
      moreover have "\<And>k. min (?d * 2 * 2 ^ k) MAX_RETRY_DELAY
                        = min (delay * 2 * 2 ^ Suc k) MAX_RETRY_DELAY"
        using min_double_cap[of delay MAX_RETRY_DELAY "Suc _"] by (simp add: mult.assoc)
      ultimately show ?thesis using ih(3) False n by simp
    qed
    with ih pos bs ds show ?thesis by auto
  qed
  show ?case
  proof (cases "outcome (env i)")
    case (Response resp)
    show ?thesis
    proof (cases "status resp = 429 \<and> retries > 0")
      case True
      from "1.IH"(2)[OF refl refl refl refl Response True rec] eq Response True rec
      show ?thesis by (intro step) auto
    next
      case False
      with eq Response show ?thesis by auto
    qed
  next
    case (FetchThrows e)
    show ?thesis
    proof (cases "retries > 0")
      case True
      from "1.IH"(1)[OF refl refl refl refl FetchThrows True rec] eq FetchThrows True rec
      show ?thesis by (intro step) auto
    next
      case False
      with eq FetchThrows show ?thesis by auto
    qed
  qed
qed

lemma fetchWithRetry_trace_capped:
  assumes "fetchWithRetry env i options retries delay s = (r, s', ds, bs)"
    and "delay \<le> MAX_RETRY_DELAY"
  shows "bs = map (\<lambda>k. min (delay * 2 ^ k) MAX_RETRY_DELAY) [0..<length bs]"
proof (cases "bs = []")
  case True
  then show ?thesis by simp
next
  case False
  then obtain n where n: "length bs = Suc n" by (cases bs) auto
  from fetchWithRetry_trace[OF assms(1)] False n
  have "bs = delay # map (\<lambda>k. min (delay * 2 * 2 ^ k) MAX_RETRY_DELAY) [0..<n]" by simp
  moreover have "map (\<lambda>k. min (delay * 2 ^ k) MAX_RETRY_DELAY) [0..<Suc n]
        = delay # map (\<lambda>k. min (delay * 2 * 2 ^ k) MAX_RETRY_DELAY) [0..<n]"
    using assms(2)
    by (simp add: upt_conv_Cons map_Suc_upt[symmetric] min_absorb1 mult.assoc del: upt_Suc)
  ultimately show ?thesis using n by simp
qed

text \<open>
  C2, as amended.  A call of \<open>sendMessage\<close> makes at most \<open>retries + 1\<close> attempts, and the
  delay it waits between attempt \<open>k\<close> and attempt \<open>k + 1\<close> is \<open>delay * 2^(k-1)\<close>: it doubles
  at every retry and has no maximum.  A call of \<open>fetchWithRetry\<close> makes at most
  \<open>retries + 1\<close> attempts, and when its initial delay is at most \<open>MAX_RETRY_DELAY\<close> (ten
  seconds) the delay between attempt \<open>k\<close> and attempt \<open>k + 1\<close> is
  \<open>min (delay * 2^(k-1)) MAX_RETRY_DELAY\<close>.  (\<open>ds\<close> are the attempts, \<open>bs\<close> the delays in
  order: \<open>bs ! (k - 1)\<close> is the delay after attempt \<open>k\<close>.)
\<close>

theorem C2_attempts_and_delays:
  assumes "sendMessage numstr env i messages retries delay s = (r, s', ds, bs)"
    and "fetchWithRetry env' i' options retries' delay' t = (r', t', ds', bs')"
    and "delay' \<le> MAX_RETRY_DELAY"
  shows "length ds \<le> retries + 1 \<and> length ds = length bs + 1 \<and>
         bs = map (\<lambda>k. delay * 2 ^ k) [0..<length bs] \<and>
         length ds' \<le> retries' + 1 \<and> length ds' = length bs' + 1 \<and>
         bs' = map (\<lambda>k. min (delay' * 2 ^ k) MAX_RETRY_DELAY) [0..<length bs']"
  using sendMessage_trace[OF assms(1)] fetchWithRetry_trace[OF assms(2)]
    fetchWithRetry_trace_capped[OF assms(2) assms(3)]
  by simp

lemma sendMessage_always_429:
  "sendMessage numstr0 always_429 0 [] 4 2000 start =
     (Inr (reply_obj reply_surcharge), \<lparr>clock = 40500, lastRequestTime = 40400\<rparr>,
      [(10000, []), (12100, []), (16200, []), (24300, []), (40400, [])],
      [2000, 4000, 8000, 16000])"
  by (simp add: sendMessage.simps always_429_def Let_def start_def acquire_def elapse_def sleep_def
      api_MIN_REQUEST_INTERVAL_def sendMessage_pass_def sendMessage_try_def sendMessage_catch_def
      ok_def api_errorMessage_def isRateLimitError_def show_nat.simps)

lemma fetchWithRetry_always_429:
  "fetchWithRetry always_429 0 () 6 1000 start =
     (Inr \<lparr>status = 429, json_body = None, text_body = None\<rparr>,
      \<lparr>clock = 45700, lastRequestTime = 45600\<rparr>,
      [(10000, ()), (11100, ()), (13200, ()), (17300, ()), (25400, ()), (35500, ()), (45600, ())],
      [1000, 2000, 4000, 8000, 10000, 10000])"
  by (simp add: fetchWithRetry.simps always_429_def Let_def start_def acquire_def elapse_def sleep_def
      MAX_RETRY_DELAY_def MIN_OPENAI_REQUEST_INTERVAL_def)

theorem C2_attempts_and_delays_witness:
  "(1000::nat) \<le> MAX_RETRY_DELAY \<and>
   length [(10000::int, []::message list), (12100, []), (16200, []), (24300, []), (40400, [])] \<le> 4 + 1 \<and>
   [2000::nat, 4000, 8000, 16000] =
     map (\<lambda>k. 2000 * 2 ^ k) [0..<length [2000::nat, 4000, 8000, 16000]] \<and>
   [1000::nat, 2000, 4000, 8000, 10000, 10000] =
     map (\<lambda>k. min (1000 * 2 ^ k) MAX_RETRY_DELAY)
       [0..<length [1000::nat, 2000, 4000, 8000, 10000, 10000]]"
proof -
  have le: "(1000::nat) \<le> MAX_RETRY_DELAY" by (simp add: MAX_RETRY_DELAY_def)
  from C2_attempts_and_delays[OF sendMessage_always_429 fetchWithRetry_always_429 le] le
  show ?thesis by simp
qed

text \<open>
  The claim as stated fails for \<open>sendMessage\<close>, whose delay is never capped: against an
  upstream that always answers 429, a call with four retries and an initial delay of two
  seconds waits 16000 ms before the fifth attempt, which is not
  \<open>min (2000 * 2^3) MAX_RETRY_DELAY\<close> for the only maximum the program configures.
\<close>

theorem C2_counterexample:
  "snd (snd (snd (sendMessage numstr0 always_429 0 [] 4 2000 start))) ! 3 = 16000 \<and>
   snd (snd (snd (sendMessage numstr0 always_429 0 [] 4 2000 start))) ! 3
     \<noteq> min (2000 * 2 ^ 3) MAX_RETRY_DELAY"
  by (simp add: sendMessage_always_429 MAX_RETRY_DELAY_def)

subsection \<open>Sequences of calls and the interval\<close>

lemma geocodeLocation_throttled:
  "geocodeLocation host env i locationName retries delay s = (r, s', ds, bs)
   \<Longrightarrow> throttled geo_MIN_REQUEST_INTERVAL s (map fst ds) s'"
proof (induction host env i locationName retries delay s arbitrary: r s' ds bs
    rule: geocodeLocation.induct)
  case (1 host env i locationName retries delay s)
  note eq = "1.prems"[unfolded geocodeLocation.simps[of host env i locationName retries delay s] Let_def]
  show ?case
  proof (cases "detectPredefinedLocation locationName")
    case (Some p)
    with eq show ?thesis by (auto simp: throttled_Nil)
  next
    case None
    show ?thesis
    proof (cases "geocodeLocation_pass host (g_outcome (env i)) retries")
      case Retry
      obtain r1 s1 ds1 bs1 where rec:
        "geocodeLocation host env (Suc i) locationName (retries - 1) (delay * 2)
           (sleep delay (g_backoff_lag (env i))
             (elapse (g_latency (env i)) (acquire geo_MIN_REQUEST_INTERVAL (g_throttle_lag (env i)) s)))
         = (r1, s1, ds1, bs1)"
        by (metis prod_cases4)
      from "1.IH"[OF None refl refl refl refl Retry rec]
      have "throttled geo_MIN_REQUEST_INTERVAL s
              (clock (acquire geo_MIN_REQUEST_INTERVAL (g_throttle_lag (env i)) s) # map fst ds1) s1"
        by (rule throttled_first)
      with eq None Retry rec show ?thesis by auto
    next
      case (Return l)
      with eq None show ?thesis by (auto simp: throttled_single)
    next
      case (Throw e)
      with eq None show ?thesis by (auto simp: throttled_single)
    qed
  qed
qed

lemma sendMessage_calls_throttled:
  "\<exists>s'. throttled api_MIN_REQUEST_INTERVAL s (map fst (sendMessage_calls numstr calls s)) s'"
proof (induction calls arbitrary: s)
  case Nil
  show ?case by (auto intro: throttled_Nil)
next
  case (Cons c calls)
  obtain idle env messages retries delay where c: "c = (idle, env, messages, retries, delay)"
    by (metis prod_cases5)
  obtain r s1 ds bs where f: "sendMessage numstr env 0 messages retries delay (elapse idle s) = (r, s1, ds, bs)"
    by (metis prod_cases4)
  from sendMessage_throttled[OF f]
  have "throttled api_MIN_REQUEST_INTERVAL s (map fst ds) s1"
    by (auto simp: throttled_def split: if_splits)
  moreover from Cons.IH[of s1] obtain s2 where
    "throttled api_MIN_REQUEST_INTERVAL s1 (map fst (sendMessage_calls numstr calls s1)) s2" by blast
  ultimately have "throttled api_MIN_REQUEST_INTERVAL s
      (map fst ds @ map fst (sendMessage_calls numstr calls s1)) s2"
    by (rule throttled_seq[OF _ refl])
  with c f show ?case by auto
qed

lemma geocodeLocation_calls_throttled:
  "\<exists>s'. throttled geo_MIN_REQUEST_INTERVAL s (map fst (geocodeLocation_calls host calls s)) s'"
proof (induction calls arbitrary: s)
  case Nil
  show ?case by (auto intro: throttled_Nil)
next
  case (Cons c calls)
  obtain idle env locationName retries delay where c: "c = (idle, env, locationName, retries, delay)"
    by (metis prod_cases5)
  obtain r s1 ds bs where f:
    "geocodeLocation host env 0 locationName retries delay (elapse idle s) = (r, s1, ds, bs)"
    by (metis prod_cases4)
  from geocodeLocation_throttled[OF f]
  have "throttled geo_MIN_REQUEST_INTERVAL s (map fst ds) s1"
    by (auto simp: throttled_def split: if_splits)
  moreover from Cons.IH[of s1] obtain s2 where
    "throttled geo_MIN_REQUEST_INTERVAL s1 (map fst (geocodeLocation_calls host calls s1)) s2" by blast
  ultimately have "throttled geo_MIN_REQUEST_INTERVAL s
      (map fst ds @ map fst (geocodeLocation_calls host calls s1)) s2"
    by (rule throttled_seq[OF _ refl])
  with c f show ?case by auto
qed

lemma fetchWithRetry_calls_throttled:
  "\<exists>s'. throttled MIN_OPENAI_REQUEST_INTERVAL s (map fst (fetchWithRetry_calls calls s)) s'"
proof (induction calls arbitrary: s)
  case Nil
  show ?case by (auto intro: throttled_Nil)
next
  case (Cons c calls)
  obtain idle env options retries delay where c: "c = (idle, env, options, retries, delay)"
    by (metis prod_cases5)
  obtain r s1 ds bs where f:
    "fetchWithRetry env 0 options retries delay (elapse idle s) = (r, s1, ds, bs)"
    by (metis prod_cases4)
  from fetchWithRetry_throttled[OF f]
  have "throttled MIN_OPENAI_REQUEST_INTERVAL s (map fst ds) s1"
    by (auto simp: throttled_def split: if_splits)
  moreover from Cons.IH[of s1] obtain s2 where
    "throttled MIN_OPENAI_REQUEST_INTERVAL s1 (map fst (fetchWithRetry_calls calls s1)) s2" by blast
  ultimately have "throttled MIN_OPENAI_REQUEST_INTERVAL s
      (map fst ds @ map fst (fetchWithRetry_calls calls s1)) s2"
    by (rule throttled_seq[OF _ refl])
  with c f show ?case by auto
qed

text \<open>
  The three sites that throttle every attempt keep their interval over every sequence of
  calls: two seconds for \<open>sendMessage\<close> and for \<open>geocodeLocation\<close>, one second for
  \<open>fetchWithRetry\<close>.
\<close>

lemma sibling_throttles_keep_the_interval:
  "spaced 2000 (map fst (sendMessage_calls numstr chats s)) \<and>
   spaced 2000 (map fst (geocodeLocation_calls host geocodings s)) \<and>
   spaced 1000 (map fst (fetchWithRetry_calls fetches s))"
  using sendMessage_calls_throttled[of s numstr chats]
    geocodeLocation_calls_throttled[of s host geocodings]
    fetchWithRetry_calls_throttled[of s fetches]
  by (auto simp: throttled_def api_MIN_REQUEST_INTERVAL_def geo_MIN_REQUEST_INTERVAL_def
      MIN_OPENAI_REQUEST_INTERVAL_def)

subsection \<open>The geocode route dispatches too early after a retry\<close>

text \<open>
  C4.  Two requests to the geocode route, the second 200 ms after the answer to the
  first.  The upstream answers 429 to the first attempt of the first request, which the
  route retries after two seconds.  The three upstream requests leave at 10000, 12100
  and 12400: the last two are 300 ms apart, less than the route's interval of 1000 ms.
  The throttle ran once per request and recorded 10000, so the retry at 12100 is unknown
  to it.
\<close>

theorem C4_geocode_route_not_spaced:
  "map fst
     (POST_geocode_calls numstr0 (Some ''key'')
        [(0, GeoQuery (Some ''Lyon''), 0, once_429), (200, GeoQuery (Some ''Madrid''), 0, no_results)]
        start)
   = [10000, 12100, 12400] \<and>
   \<not> spaced (int route_MIN_REQUEST_INTERVAL)
       (map fst
          (POST_geocode_calls numstr0 (Some ''key'')
             [(0, GeoQuery (Some ''Lyon''), 0, once_429),
              (200, GeoQuery (Some ''Madrid''), 0, no_results)]
             start))"
  by (simp add: POST_geocode_def makeRequestWithRetry.simps makeRequest_pass_def makeRequest_try_def
      makeRequest_catch_def once_429_def no_results_def az_429_def az_no_results_def a_ok_def
      geocode_answer_def or_else_def unset_def start_def acquire_def elapse_def sleep_def Let_def
      route_MIN_REQUEST_INTERVAL_def route_MAX_RETRIES_def)

subsection \<open>The resolution pipeline\<close>

lemma state_after_Nil [simp]: "state_after geocode [] s = s"
  by (simp add: state_after_def)

lemma state_after_Cons [simp]:
  "state_after geocode (n # ns) s = state_after geocode ns (snd (geocode n s))"
  by (simp add: state_after_def)












text \<open>
  Two runs.  A geocoder that is rate limited on the candidate Lyon: Berne is skipped, the
  error of Lyon is thrown, and neither the candidate Madrid nor the whole text is asked.
  A geocoder that is rate limited on the whole text only: both candidates are passed, and
  the error of the third call is thrown.
\<close>

lemma scripted_run:
  "detectAndGeocodeLocation scripted_geocoder ''je vais de Berne vers Lyon puis Madrid'' 0 =
     (Inl too_many_requests, 2,
      [(''Berne'', Inl (Error ''Failed to fetch'')), (''Lyon'', Inl too_many_requests)])"
  by code_simp




lemma scripted_candidates:
  "extractLocationNames ''je vais de Berne vers Lyon puis Madrid'' = [''Berne'', ''Lyon'', ''Madrid'']"
  by code_simp


subsection \<open>The gazetteer\<close>

lemma keys_lower_case: "list_all (\<lambda>entry. toLowerCase (fst entry) = fst entry) locationData"
  by code_simp

lemma table_key_test:
  assumes "n < length locationData"
  shows "contains_ignoring_case text (fst (locationData ! n))
         = js_includes (toLowerCase text) (fst (locationData ! n))"
proof -
  from assms keys_lower_case have "toLowerCase (fst (locationData ! n)) = fst (locationData ! n)"
    by (simp add: list_all_length)
  then show ?thesis by (simp add: contains_ignoring_case_def)
qed

text \<open>
  C9.  When the text contains a key of the gazetteer, the case of letters ignored, the
  first entry of the table (in its order) whose key the text contains is what
  \<open>detectPredefinedLocation\<close> finds; \<open>detectAndGeocodeLocation\<close> returns that entry without
  calling the geocoder and leaves the state as it was, for every geocoder; and
  \<open>geocodeLocation\<close> returns it without dispatching a request or touching the throttle.
\<close>

theorem C9_gazetteer_short_circuits:
  assumes "(key, loc) \<in> set locationData" and "contains_ignoring_case text key"
  shows "\<exists>n < length locationData.
           contains_ignoring_case text (fst (locationData ! n)) \<and>
           (\<forall>m < n. \<not> contains_ignoring_case text (fst (locationData ! m))) \<and>
           detectPredefinedLocation text = Some (snd (locationData ! n)) \<and>
           detectAndGeocodeLocation geocode text s =
             (Inr (Some (Literal (snd (locationData ! n)))), s, []) \<and>
           geocodeLocation host env i text retries delay t =
             (Inr (Some (Literal (snd (locationData ! n)))), t, [], [])"
proof -
  let ?P = "\<lambda>entry. js_includes (toLowerCase text) (fst entry)"
  have detect: "detectPredefinedLocation text = map_option snd (find ?P locationData)"
    by (simp add: detectPredefinedLocation_def split_def)
  from assms(1) obtain j where j: "j < length locationData" "locationData ! j = (key, loc)"
    by (auto simp: in_set_conv_nth)
  with assms(2) table_key_test[of j "text"] have "?P (locationData ! j)" by simp
  with j have "\<exists>x \<in> set locationData. ?P x" by (metis nth_mem)
  then obtain x where "find ?P locationData = Some x"
    by (cases "find ?P locationData") (auto simp: find_None_iff)
  then obtain n where n: "n < length locationData" "?P (locationData ! n)"
    "\<forall>m < n. \<not> ?P (locationData ! m)" and f: "find ?P locationData = Some (locationData ! n)"
    by (auto simp: find_Some_iff)
  have a: "contains_ignoring_case text (fst (locationData ! n))"
    using n(1,2) table_key_test[of n "text"] by simp
  have b: "\<forall>m < n. \<not> contains_ignoring_case text (fst (locationData ! m))"
  proof (intro allI impI)
    fix m assume m: "m < n"
    with n(1) have "m < length locationData" by simp
    with m n(3) table_key_test[of m "text"]
    show "\<not> contains_ignoring_case text (fst (locationData ! m))" by simp
  qed
  have c: "detectPredefinedLocation text = Some (snd (locationData ! n))"
    using f detect by simp
  have d: "detectAndGeocodeLocation geocode text s =
             (Inr (Some (Literal (snd (locationData ! n)))), s, [])"
    using c by (simp add: detectAndGeocodeLocation_def)
  have e: "geocodeLocation host env i text retries delay t =
             (Inr (Some (Literal (snd (locationData ! n)))), t, [], [])"
    using c by (subst geocodeLocation.simps) simp
  from n(1) a b c d e show ?thesis by blast
qed

lemma paris_entry: "detectPredefinedLocation paris_sentence = Some defaultLocation"
  by code_simp

lemma paris_in_table: "(''paris'', defaultLocation) \<in> set locationData"
  by code_simp

lemma paris_contained: "contains_ignoring_case paris_sentence ''paris''"
  by code_simp

text \<open>
  The sentence of the specification about a visit to Paris this summer
  (\<open>paris_sentence\<close>): the entry for Paris, no call of the geocoder, no request.
\<close>

theorem C9_gazetteer_short_circuits_witness:
  "(''paris'', defaultLocation) \<in> set locationData \<and>
   contains_ignoring_case paris_sentence ''paris'' \<and>
   detectAndGeocodeLocation scripted_geocoder paris_sentence 0 =
     (Inr (Some (Literal defaultLocation)), 0, []) \<and>
   geocodeLocation not_a_number (always_400) 0 paris_sentence geo_MAX_RETRIES
       geo_INITIAL_RETRY_DELAY start =
     (Inr (Some (Literal defaultLocation)), start, [], [])"
proof -
  from C9_gazetteer_short_circuits[OF paris_in_table paris_contained,
      of scripted_geocoder 0 not_a_number "always_400" 0 geo_MAX_RETRIES geo_INITIAL_RETRY_DELAY start]
  obtain n where
    "detectPredefinedLocation paris_sentence = Some (snd (locationData ! n))"
    "detectAndGeocodeLocation scripted_geocoder paris_sentence 0 =
       (Inr (Some (Literal (snd (locationData ! n)))), 0, [])"
    "geocodeLocation not_a_number (always_400) 0 paris_sentence geo_MAX_RETRIES
         geo_INITIAL_RETRY_DELAY start =
       (Inr (Some (Literal (snd (locationData ! n)))), start, [], [])"
    by blast
  with paris_entry paris_in_table paris_contained show ?thesis by simp
qed

subsection \<open>Coordinates of the locations produced\<close>

text \<open>
  The entries of the gazetteer have valid coordinates, and so has every location in an
  answer of the geocode route, which checks that the two are numbers before it validates
  them; a position out of range is answered with status 400 and no location.
\<close>

lemma validateCoordinates_in_range:
  "validateCoordinates lon lat = (in_range lon (-180) 180 \<and> in_range lat (-90) 90)"
  by (cases lon; cases lat) (auto simp: validateCoordinates_def in_range_def)

lemma gazetteer_valid: "list_all (\<lambda>entry. valid_location (snd entry)) locationData"
  by (simp add: locationData_def valid_location_def in_range_def)

lemma detectPredefinedLocation_valid:
  assumes "detectPredefinedLocation n = Some loc"
  shows "valid_location loc"
proof -
  from assms obtain e where "find (\<lambda>(key, location). js_includes (toLowerCase n) key) locationData = Some e"
    and "loc = snd e"
    by (auto simp: detectPredefinedLocation_def)
  then obtain j where "j < length locationData" "e = locationData ! j"
    by (auto simp: find_Some_iff)
  then have "e \<in> set locationData" by simp
  with gazetteer_valid \<open>loc = snd e\<close> show ?thesis by (auto simp: list_all_iff)
qed

lemma geocode_answer_valid:
  "geocode_answer numstr query data = Inr (st, BodyLocation loc) \<Longrightarrow> st = 200 \<and> valid_location loc"
  by (auto simp: geocode_answer_def valid_location_def validateCoordinates_in_range Let_def
      split: az_data.splits list.splits az_position.splits option.splits if_splits)

lemma POST_geocode_valid:
  "fst (POST_geocode numstr apiKey request lag env s) = (st, BodyLocation loc)
   \<Longrightarrow> st = 200 \<and> valid_location loc"
  by (auto simp: POST_geocode_def Let_def split: geo_request.splits if_splits prod.splits sum.splits
      dest: geocode_answer_valid)

lemma geocode_answer_invalid:
  "\<not> (in_range lon (-180) 180 \<and> in_range lat (-90) 90) \<Longrightarrow> position result = Position (Some lon) (Some lat) \<Longrightarrow>
   geocode_answer numstr query (AzResults (result # others))
     = Inr (400, BodyError (''Invalid coordinates: '' @ numstr lon @ '', '' @ numstr lat))"
  by (simp add: geocode_answer_def validateCoordinates_in_range)

text \<open>
  The client behind the route.  A location of a route answer passes the validation of the
  client, and what \<open>geocodeLocation\<close> and \<open>detectAndGeocodeLocation\<close> return when every
  response comes from the route has two numbers in range as its coordinates.
\<close>

lemma route_location_accepted:
  assumes "valid_location loc"
  shows "geo_validate host (JObj [(''location'', location_sent loc)]) =
           Inr (Some (Received (location_sent loc))) \<and>
         valid_located (Received (location_sent loc))"
proof -
  from assms obtain a b where c: "coordinates loc = [Fin a, Fin b]"
    and r: "-180 \<le> a" "a \<le> 180" "-90 \<le> b" "b \<le> 90"
    by (auto simp: valid_location_def in_range_def split: list.splits number.splits)
  then show ?thesis
    by (simp add: geo_validate_def location_sent_def number_sent_def validateCoordinates_received_def
        ToNumber_def validateCoordinates_def in_range_def)
qed

lemma route_response_pass:
  assumes "\<forall>loc. snd reply = BodyLocation loc \<longrightarrow> valid_location loc"
    and "geocodeLocation_pass host (GeoResponse (route_response body_text reply)) retries
           = Return (Some l)"
  shows "valid_located l"
proof (cases "snd reply")
  case (BodyLocation loc)
  with assms(1) have v: "valid_location loc" by simp
  note acc = route_location_accepted[OF v, of host]
  from assms(2) BodyLocation acc show ?thesis
    by (auto simp: geocodeLocation_pass_def geocodeLocation_try_def geocodeLocation_catch_def
        route_response_def geo_read_body_def split: if_splits)
next
  case BodyNoLocation
  with assms(2) show ?thesis
    by (auto simp: geocodeLocation_pass_def geocodeLocation_try_def geocodeLocation_catch_def
        route_response_def geo_read_body_def geo_validate_def split: if_splits)
next
  case (BodyError msg)
  with assms(2) show ?thesis
    by (auto simp: geocodeLocation_pass_def geocodeLocation_try_def geocodeLocation_catch_def
        route_response_def geo_read_body_def geo_validate_def split: if_splits)
qed

lemma client_over_route_pass:
  "geocodeLocation_pass host
     (GeoResponse (route_response body_text (fst (POST_geocode numstr apiKey request lag aenv t))))
     retries = Return (Some l)
   \<Longrightarrow> valid_located l"
proof -
  assume pass: "geocodeLocation_pass host
     (GeoResponse (route_response body_text (fst (POST_geocode numstr apiKey request lag aenv t))))
     retries = Return (Some l)"
  have "\<forall>loc. snd (fst (POST_geocode numstr apiKey request lag aenv t)) = BodyLocation loc
          \<longrightarrow> valid_location loc"
  proof (intro allI impI)
    fix loc assume "snd (fst (POST_geocode numstr apiKey request lag aenv t)) = BodyLocation loc"
    then have "fst (POST_geocode numstr apiKey request lag aenv t) =
                 (fst (fst (POST_geocode numstr apiKey request lag aenv t)), BodyLocation loc)"
      by (simp add: prod_eq_iff)
    then show "valid_location loc" by (blast dest: POST_geocode_valid)
  qed
  then show ?thesis using pass by (rule route_response_pass)
qed

lemma geocodeLocation_over_route:
  assumes "\<forall>j r. g_outcome (env j) = GeoResponse r \<longrightarrow>
             (\<exists>body_text numstr apiKey request lag aenv t.
                r = route_response body_text (fst (POST_geocode numstr apiKey request lag aenv t)))"
  shows "geocodeLocation host env i locationName retries delay s = (Inr (Some l), s', ds, bs)
         \<Longrightarrow> valid_located l"
  using assms
proof (induction host env i locationName retries delay s arbitrary: s' ds bs
    rule: geocodeLocation.induct)
  case (1 host env i locationName retries delay s)
  note eq = "1.prems"(1)[unfolded geocodeLocation.simps[of host env i locationName retries delay s] Let_def]
  show ?case
  proof (cases "detectPredefinedLocation locationName")
    case (Some p)
    with eq have "l = Literal p" by simp
    with Some show ?thesis by (auto dest: detectPredefinedLocation_valid)
  next
    case None
    show ?thesis
    proof (cases "geocodeLocation_pass host (g_outcome (env i)) retries")
      case Retry
      obtain r1 s1 ds1 bs1 where rec:
        "geocodeLocation host env (Suc i) locationName (retries - 1) (delay * 2)
           (sleep delay (g_backoff_lag (env i))
             (elapse (g_latency (env i)) (acquire geo_MIN_REQUEST_INTERVAL (g_throttle_lag (env i)) s)))
         = (r1, s1, ds1, bs1)"
        by (metis prod_cases4)
      with eq None Retry have "r1 = Inr (Some l)" by simp
      with "1.IH"[OF None refl refl refl refl Retry _ "1.prems"(2)] rec show ?thesis by simp
    next
      case (Return found)
      with eq None have f: "found = Some l" by simp
      show ?thesis
      proof (cases "g_outcome (env i)")
        case (GeoFetchThrows e)
        with Return f show ?thesis
          by (auto simp: geocodeLocation_pass_def geocodeLocation_try_def geocodeLocation_catch_def
              split: if_splits)
      next
        case (GeoResponse r)
        with "1.prems"(2) obtain body_text numstr apiKey request lag aenv t where
          "r = route_response body_text (fst (POST_geocode numstr apiKey request lag aenv t))"
          by blast
        with Return f GeoResponse show ?thesis by (auto dest: client_over_route_pass)
      qed
    next
      case (Throw e)
      with eq None show ?thesis by simp
    qed
  qed
qed

lemma geocode_candidates_valid:
  assumes "\<forall>n s l s'. geocode n s = (Inr (Some l), s') \<longrightarrow> valid_located l"
  shows "geocode_candidates geocode names s = (Some (Inr (Some loc)), s', calls) \<Longrightarrow> valid_located loc"
proof (induction names arbitrary: s s' calls)
  case Nil
  then show ?case by simp
next
  case (Cons n ns)
  obtain g s1 where g: "geocode n s = (g, s1)" by (cases "geocode n s")
  obtain ro2 s2 calls2 where rec: "geocode_candidates geocode ns s1 = (ro2, s2, calls2)"
    by (metis prod_cases3)
  show ?case
  proof (cases g)
    case (Inl e)
    with Cons.prems g rec have "ro2 = Some (Inr (Some loc))"
      by (auto split: if_splits)
    with Cons.IH rec show ?thesis by simp
  next
    case (Inr l)
    show ?thesis
    proof (cases l)
      case None
      with Cons.prems g Inr rec have "ro2 = Some (Inr (Some loc))" by auto
      with Cons.IH rec show ?thesis by simp
    next
      case (Some x)
      with Cons.prems g Inr have "x = loc" by simp
      with g Inr Some assms show ?thesis by blast
    qed
  qed
qed

lemma detectAndGeocodeLocation_valid:
  assumes "\<forall>n s l s'. geocode n s = (Inr (Some l), s') \<longrightarrow> valid_located l"
    and "detectAndGeocodeLocation geocode text s = (Inr (Some loc), s', calls)"
  shows "valid_located loc"
proof (cases "detectPredefinedLocation text")
  case (Some p)
  with assms(2) have "loc = Literal p" by (simp add: detectAndGeocodeLocation_def)
  with Some show ?thesis by (auto dest: detectPredefinedLocation_valid)
next
  case None
  obtain ro s1 calls1 where c: "geocode_candidates geocode (extractLocationNames text) s = (ro, s1, calls1)"
    by (metis prod_cases3)
  show ?thesis
  proof (cases ro)
    case (Some r0)
    with assms(2) None c have "detect_catch r0 = Inr (Some loc)"
      by (simp add: detectAndGeocodeLocation_def)
    then have "r0 = Inr (Some loc)"
      by (auto simp: detect_catch_def split: sum.splits if_splits)
    with c Some geocode_candidates_valid[OF assms(1)] show ?thesis by blast
  next
    case ro: None
    obtain g s2 where g: "geocode text s1 = (g, s2)" by (cases "geocode text s1")
    with assms(2) None c ro have "g = Inr (Some loc)"
      by (auto simp: detectAndGeocodeLocation_def geocode_whole_text_def detect_catch_def
          split: sum.splits if_splits)
    with g assms(1) show ?thesis by blast
  qed
qed

lemma pipeline_over_route:
  assumes "\<forall>c j r. g_outcome (envs c j) = GeoResponse r \<longrightarrow>
             (\<exists>body_text numstr apiKey request lag aenv t.
                r = route_response body_text (fst (POST_geocode numstr apiKey request lag aenv t)))"
    and "detectAndGeocodeLocation (client_geocode host envs) text st = (Inr (Some l), st', calls)"
  shows "valid_located l"
proof -
  have "\<forall>n s l s'. client_geocode host envs n s = (Inr (Some l), s') \<longrightarrow> valid_located l"
  proof (intro allI impI)
    fix n s l s' assume a: "client_geocode host envs n s = (Inr (Some l), s')"
    obtain t c sent where s: "s = (t, c, sent)" by (metis prod_cases3)
    from assms(1) have route: "\<forall>j r. g_outcome (envs c j) = GeoResponse r \<longrightarrow>
             (\<exists>body_text numstr apiKey request lag aenv t.
                r = route_response body_text (fst (POST_geocode numstr apiKey request lag aenv t)))"
      by blast
    from a s show "valid_located l"
      by (auto simp: client_geocode_def split: prod.splits dest: geocodeLocation_over_route[OF route])
  qed
  then show ?thesis using assms(2) by (rule detectAndGeocodeLocation_valid)
qed

text \<open>
  An ok response whose coordinates are two numbers out of range (or NaN) makes the client
  return \<open>null\<close> at that attempt.
\<close>

lemma client_rejects_out_of_range:
  assumes "g_ok r"
    and "geo_read_body r = Inr (JObj props)"
    and "map_of props ''location'' = Some (JObj kvs)"
    and "map_of kvs ''coordinates'' = Some (JArr [JNum lon, JNum lat])"
    and "\<not> (in_range lon (-180) 180 \<and> in_range lat (-90) 90)"
  shows "geocodeLocation_pass host (GeoResponse r) retries = Return None"
  using assms
  by (auto simp: geocodeLocation_pass_def geocodeLocation_try_def g_ok_def geo_validate_def
      validateCoordinates_received_def ToNumber_def validateCoordinates_in_range)

text \<open>
  On its own the client takes coordinates that are not numbers: \<open>isNaN\<close> and the
  comparisons make 0 of \<open>null\<close>, and the location is returned as it came.  The route does
  not send such coordinates.
\<close>

lemma xyzzy_not_predefined: "detectPredefinedLocation ''Xyzzy'' = None"
  by code_simp

lemma client_accepts_null_coordinates:
  "geocodeLocation host always_null_coordinates 0 ''Xyzzy'' geo_MAX_RETRIES geo_INITIAL_RETRY_DELAY start =
     (Inr (Some (Received
        (JObj [(''name'', JStr ''Nowhere''), (''coordinates'', JArr [JNull, JNull])]))),
      \<lparr>clock = 10100, lastRequestTime = 10000\<rparr>, [(10000, ''Xyzzy'')], []) \<and>
   \<not> valid_located (Received
        (JObj [(''name'', JStr ''Nowhere''), (''coordinates'', JArr [JNull, JNull])]))"
  by (simp add: geocodeLocation.simps xyzzy_not_predefined always_null_coordinates_def
      null_coordinates_def Let_def start_def acquire_def elapse_def geo_MIN_REQUEST_INTERVAL_def
      geocodeLocation_pass_def geocodeLocation_try_def g_ok_def geo_read_body_def geo_validate_def
      validateCoordinates_received_def ToNumber_def validateCoordinates_def)

text \<open>
  End to end.  The upstream finds Lyon: the route answers 200 and the client returns the
  location.  The upstream gives a result with longitude 200: the route answers 400 with
  \<open>Invalid coordinates: 200, 48.8\<close> (the response \<open>invalid_coordinates_400\<close>), which the client
  retries twice before it returns \<open>null\<close>.
\<close>

lemma lyon_not_predefined: "detectPredefinedLocation ''Lyon'' = None"
  by code_simp

lemma route_finds_lyon:
  "POST_geocode show_coordinate (Some ''key'') (GeoQuery (Some ''Lyon'')) 0 (upstream_finds az_lyon) start =
     ((200, BodyLocation
        \<lparr>name = ''Lyon'', coordinates = [Fin 4.8357, Fin 45.764], zoom = Fin 10,
         description = Some ''Lyon, France''\<rparr>),
      \<lparr>clock = 10100, lastRequestTime = 10000\<rparr>, [(10000, ''Lyon'')], [])"
  by (simp add: POST_geocode_def makeRequestWithRetry.simps makeRequest_pass_def makeRequest_try_def
      upstream_finds_def az_lyon_def a_ok_def geocode_answer_def validateCoordinates_def zoom_for_def
      or_else_def unset_def start_def acquire_def elapse_def Let_def
      route_MIN_REQUEST_INTERVAL_def route_MAX_RETRIES_def)

lemma client_finds_lyon:
  "geocodeLocation host (through_route body_text ''Lyon'' az_lyon) 0 ''Lyon''
     geo_MAX_RETRIES geo_INITIAL_RETRY_DELAY start =
     (Inr (Some (Received
        (JObj [(''name'', JStr ''Lyon''), (''coordinates'', JArr [JNum (Fin 4.8357), JNum (Fin 45.764)]),
               (''zoom'', JNum (Fin 10)), (''description'', JStr ''Lyon, France'')]))),
      \<lparr>clock = 10100, lastRequestTime = 10000\<rparr>, [(10000, ''Lyon'')], []) \<and>
   valid_located (Received
        (JObj [(''name'', JStr ''Lyon''), (''coordinates'', JArr [JNum (Fin 4.8357), JNum (Fin 45.764)]),
               (''zoom'', JNum (Fin 10)), (''description'', JStr ''Lyon, France'')]))"
  unfolding through_route_def route_finds_lyon fst_conv
  by (simp add: geocodeLocation.simps lyon_not_predefined route_response_def location_sent_def
      number_sent_def Let_def start_def acquire_def elapse_def geo_MIN_REQUEST_INTERVAL_def
      geocodeLocation_pass_def geocodeLocation_try_def g_ok_def geo_read_body_def geo_validate_def
      validateCoordinates_received_def ToNumber_def validateCoordinates_def in_range_def)

lemma route_rejects_longitude_200:
  "POST_geocode show_coordinate (Some ''key'') (GeoQuery (Some ''Xyzzy'')) 0
     (upstream_finds az_longitude_200) start =
   ((400, BodyError ''Invalid coordinates: 200, 48.8''),
    \<lparr>clock = 10100, lastRequestTime = 10000\<rparr>, [(10000, ''Xyzzy'')], [])"
  by (simp add: POST_geocode_def makeRequestWithRetry.simps makeRequest_pass_def makeRequest_try_def
      upstream_finds_def az_longitude_200_def a_ok_def geocode_answer_def validateCoordinates_def
      show_coordinate_def or_else_def unset_def start_def acquire_def elapse_def Let_def
      route_MIN_REQUEST_INTERVAL_def route_MAX_RETRIES_def)

lemma invalid_coordinates_400_from_route:
  "invalid_coordinates_400 =
     route_response (''{'' @ quoted ''error'' @ '':'' @ quoted ''Invalid coordinates: 200, 48.8'' @ ''}'')
       (fst (POST_geocode show_coordinate (Some ''key'') (GeoQuery (Some ''Xyzzy'')) 0
               (upstream_finds az_longitude_200) start))"
  unfolding route_rejects_longitude_200 fst_conv
  by (simp add: invalid_coordinates_400_def route_response_def)

lemma client_gives_up_on_200:
  "geocodeLocation host (through_route body_text ''Xyzzy'' az_longitude_200) 0 ''Xyzzy''
     geo_MAX_RETRIES geo_INITIAL_RETRY_DELAY start =
     (Inr None, \<lparr>clock = 16300, lastRequestTime = 16200\<rparr>,
      [(10000, ''Xyzzy''), (12100, ''Xyzzy''), (16200, ''Xyzzy'')], [2000, 4000])"
  unfolding through_route_def route_rejects_longitude_200 fst_conv
  by (simp add: geocodeLocation.simps xyzzy_not_predefined route_response_def
      Let_def start_def acquire_def elapse_def sleep_def geo_MIN_REQUEST_INTERVAL_def
      geo_MAX_RETRIES_def geo_INITIAL_RETRY_DELAY_def
      geocodeLocation_pass_def geocodeLocation_try_def geocodeLocation_catch_def g_ok_def
      geo_errorMessage_def isRateLimitError_def show_nat.simps)

text \<open>
  The upstream gives a result with longitude 429.  The message of the route's 400 carries
  the number, and the \<open>catch\<close> of the client, which looks for \<open>429\<close> in the message of every
  error, takes it for a rate-limit error and throws it on.
\<close>

lemma route_rejects_longitude_429:
  "POST_geocode show_coordinate (Some ''key'') (GeoQuery (Some ''Xyzzy'')) 0
     (upstream_finds az_longitude_429) start =
   ((400, BodyError ''Invalid coordinates: 429, 48.8''),
    \<lparr>clock = 10100, lastRequestTime = 10000\<rparr>, [(10000, ''Xyzzy'')], [])"
  by (simp add: POST_geocode_def makeRequestWithRetry.simps makeRequest_pass_def makeRequest_try_def
      upstream_finds_def az_longitude_429_def a_ok_def geocode_answer_def validateCoordinates_def
      show_coordinate_def or_else_def unset_def start_def acquire_def elapse_def Let_def
      route_MIN_REQUEST_INTERVAL_def route_MAX_RETRIES_def)

lemma client_takes_429_for_rate_limit:
  "geocodeLocation host (through_route body_text ''Xyzzy'' az_longitude_429) 0 ''Xyzzy''
     geo_MAX_RETRIES geo_INITIAL_RETRY_DELAY start =
     (Inl (Error ''Geocoding API error: 400 - Invalid coordinates: 429, 48.8''),
      \<lparr>clock = 10100, lastRequestTime = 10000\<rparr>, [(10000, ''Xyzzy'')], [])"
  unfolding through_route_def route_rejects_longitude_429 fst_conv
  by (simp add: geocodeLocation.simps xyzzy_not_predefined route_response_def
      Let_def start_def acquire_def elapse_def geo_MIN_REQUEST_INTERVAL_def
      geo_MAX_RETRIES_def geo_INITIAL_RETRY_DELAY_def
      geocodeLocation_pass_def geocodeLocation_try_def geocodeLocation_catch_def g_ok_def
      geo_errorMessage_def isRateLimitError_def show_nat.simps)

lemma xyzzy_no_candidates: "extractLocationNames ''Xyzzy'' = []"
  by code_simp

lemma pipeline_rethrows_429:
  "detectAndGeocodeLocation (client_geocode host (\<lambda>c. through_route body_text ''Xyzzy'' az_longitude_429))
      ''Xyzzy'' (start, 0, []) =
     (Inl (Error ''Geocoding API error: 400 - Invalid coordinates: 429, 48.8''),
      (\<lparr>clock = 10100, lastRequestTime = 10000\<rparr>, 1, [(10000, ''Xyzzy'')]),
      [(''Xyzzy'', Inl (Error ''Geocoding API error: 400 - Invalid coordinates: 429, 48.8''))])"
  by (simp add: detectAndGeocodeLocation_def xyzzy_not_predefined xyzzy_no_candidates
      geocode_whole_text_def client_geocode_def client_takes_429_for_rate_limit detect_catch_def
      isRateLimitError_def)

lemma page_opens_map_circuit:
  "isMapRateLimited
     (geocoding_done True
        (Inl (Error ''Geocoding API error: 400 - Invalid coordinates: 429, 48.8'')) (initial_page 0)) \<and>
   rateLimitTimerRef
     (geocoding_done True
        (Inl (Error ''Geocoding API error: 400 - Invalid coordinates: 429, 48.8'')) (initial_page 0))
     = Some 60000"
  by (simp add: geocoding_done_def isRateLimitError_def setMapRateLimitWithCooldown_def
      initial_page_def)

text \<open>
  C7.  The message \<open>Xyzzy\<close>, for which the upstream geocoder gives a result with the
  coordinates (429, 48.8).  The route answers 400 with \<open>Invalid coordinates: 429, 48.8\<close>.
  \<open>geocodeLocation("Xyzzy")\<close> sends one request and throws
  \<open>Geocoding API error: 400 - Invalid coordinates: 429, 48.8\<close>; \<open>detectAndGeocodeLocation\<close>
  throws it on, so its result is not \<open>null\<close>; and the page takes it for a rate limit and
  closes the map for a minute.  The result out of range is not surfaced as a location,
  and it is not treated as no match.
\<close>

theorem C7_out_of_range_taken_for_rate_limit:
  "fst (POST_geocode show_coordinate (Some ''key'') (GeoQuery (Some ''Xyzzy'')) 0
          (upstream_finds az_longitude_429) start) =
     (400, BodyError ''Invalid coordinates: 429, 48.8'') \<and>
   geocodeLocation host (through_route body_text ''Xyzzy'' az_longitude_429) 0 ''Xyzzy''
       geo_MAX_RETRIES geo_INITIAL_RETRY_DELAY start =
     (Inl (Error ''Geocoding API error: 400 - Invalid coordinates: 429, 48.8''),
      \<lparr>clock = 10100, lastRequestTime = 10000\<rparr>, [(10000, ''Xyzzy'')], []) \<and>
   fst (detectAndGeocodeLocation
          (client_geocode host (\<lambda>c. through_route body_text ''Xyzzy'' az_longitude_429))
          ''Xyzzy'' (start, 0, [])) =
     Inl (Error ''Geocoding API error: 400 - Invalid coordinates: 429, 48.8'') \<and>
   fst (detectAndGeocodeLocation
          (client_geocode host (\<lambda>c. through_route body_text ''Xyzzy'' az_longitude_429))
          ''Xyzzy'' (start, 0, [])) \<noteq> Inr None \<and>
   isMapRateLimited
     (geocoding_done True
        (fst (detectAndGeocodeLocation
                (client_geocode host (\<lambda>c. through_route body_text ''Xyzzy'' az_longitude_429))
                ''Xyzzy'' (start, 0, [])))
        (initial_page 0))"
  by (simp add: route_rejects_longitude_429 client_takes_429_for_rate_limit pipeline_rethrows_429
      page_opens_map_circuit)

subsection \<open>A 4xx answer is retried\<close>

text \<open>
  C8.  \<open>geocodeLocation("Xyzzy")\<close> with its defaults, against a route that answers 400 (the
  route's answer to coordinates out of range) every time: the error thrown for the 400 is
  caught by the function's own \<open>catch\<close>, which retries every error that is not a rate
  limit.  Three requests leave, with delays of 2000 and 4000 ms between them, and the
  result is \<open>null\<close>, not an error.
\<close>

theorem C8_bad_request_is_retried:
  "geocodeLocation host always_400 0 ''Xyzzy'' geo_MAX_RETRIES geo_INITIAL_RETRY_DELAY start =
     (Inr None, \<lparr>clock = 16300, lastRequestTime = 16200\<rparr>,
      [(10000, ''Xyzzy''), (12100, ''Xyzzy''), (16200, ''Xyzzy'')], [2000, 4000])"
  by (simp add: geocodeLocation.simps xyzzy_not_predefined always_400_def invalid_coordinates_400_def
      Let_def start_def acquire_def elapse_def sleep_def geo_MIN_REQUEST_INTERVAL_def
      geo_MAX_RETRIES_def geo_INITIAL_RETRY_DELAY_def
      geocodeLocation_pass_def geocodeLocation_try_def geocodeLocation_catch_def g_ok_def
      geo_errorMessage_def isRateLimitError_def show_nat.simps)

subsection \<open>The static-map route\<close>


text \<open>Without the key the same request is answered 500, which is not 400 either.\<close>

lemma GET_no_parameters_never_400:
  assumes "parseFloat ''0'' = Fin 0" and "parseInt ''10'' = Fin 10"
  shows "fst (GET_static_map parseFloat parseInt numstr apiKey no_parameters) \<noteq> 400"
  using assms
  by (simp add: map_longitude_def map_latitude_def map_zoom_def or_else_def GET_static_map_def
      no_parameters_def Let_def)


subsection \<open>The page's cooldowns\<close>

lemma geocoding_done_chat [simp]:
  "isChatRateLimited (geocoding_done b r st) = isChatRateLimited st"
  "chatRateLimitTimerRef (geocoding_done b r st) = chatRateLimitTimerRef st"
  "consecutiveErrorsRef (geocoding_done b r st) = consecutiveErrorsRef st"
  "now (geocoding_done b r st) = now st"
  by (auto simp: geocoding_done_def setMapRateLimitWithCooldown_def setGeocodingErrorWithTimeout_def
      Let_def split: sum.splits option.splits)

lemma add_message_fields [simp]:
  "isChatRateLimited (add_message r c st) = isChatRateLimited st"
  "chatRateLimitTimerRef (add_message r c st) = chatRateLimitTimerRef st"
  "consecutiveErrorsRef (add_message r c st) = consecutiveErrorsRef st"
  "isMapRateLimited (add_message r c st) = isMapRateLimited st"
  "rateLimitTimerRef (add_message r c st) = rateLimitTimerRef st"
  "now (add_message r c st) = now st"
  by (simp_all add: add_message_def)

lemma setGeocodingError_fields [simp]:
  "isChatRateLimited (setGeocodingErrorWithTimeout e st) = isChatRateLimited st"
  "chatRateLimitTimerRef (setGeocodingErrorWithTimeout e st) = chatRateLimitTimerRef st"
  "consecutiveErrorsRef (setGeocodingErrorWithTimeout e st) = consecutiveErrorsRef st"
  "isMapRateLimited (setGeocodingErrorWithTimeout e st) = isMapRateLimited st"
  "rateLimitTimerRef (setGeocodingErrorWithTimeout e st) = rateLimitTimerRef st"
  "now (setGeocodingErrorWithTimeout e st) = now st"
  by (simp_all add: setGeocodingErrorWithTimeout_def)

lemma chat_replied_map [simp]:
  "isMapRateLimited (chat_replied reply st) = isMapRateLimited st"
  "rateLimitTimerRef (chat_replied reply st) = rateLimitTimerRef st"
  "now (chat_replied reply st) = now st"
  by (simp_all add: chat_replied_def setChatRateLimitWithCooldown_def Let_def)





















end
